theory Spec2Isabelle
  imports Main "HOL-Library.Char_ord" "HOL-Library.List_Lexorder" "HOL-Library.Multiset"
begin

section \<open>Batch service assignment: data\<close>

text \<open>
  The batch scheduling page exists in two variants with the same component name
  (\<open>BatchAssignmentClient\<close>): one where the dates are picked on a calendar grid
  (suffix \<open>_sel\<close> below) and one where they are generated from a date range and a weekday
  (suffix \<open>_rng\<close>). Text is modelled as \<open>string\<close>; the Chinese literals of the source are
  given by their UTF-8 bytes. The interfaces of the source are records.
\<close>

record ServiceType =
  id_t :: string
  name_t :: string
  frequency :: string

record Member =
  id_m :: string
  name_m :: string

record PreviewAssignment =
  date :: string
  memberId :: string
  memberName :: string

text \<open>The object literal built by \<open>handleSubmit\<close> for each preview row.\<close>

record ServiceAssignment =
  org_id :: string
  service_type_id :: string
  member_id :: string
  service_date :: string
  status :: string

text \<open>
  The component state: the \<open>useState\<close> cells shared by both variants, extended by the cells
  of each variant. A JavaScript \<open>Set<string>\<close> keeps its elements in insertion order and
  without duplicates; \<open>selectedDates\<close> is the list \<open>Array.from\<close> yields.
\<close>

record Common =
  orgId :: string
  serviceTypes :: "ServiceType list"
  members :: "Member list"
  loading :: bool
  error :: string
  submitting :: bool
  serviceTypeId :: string
  selectedMemberIds :: "string list"

record SelState = Common +
  monthCount :: nat
  selectedDates :: "string list"

record RngState = Common +
  startDate :: string
  endDate :: string
  dayOfWeek :: int
  showPreview :: bool

section \<open>Literals of the source\<close>

text \<open>The placeholder name \<open>U+672A U+77E5\<close> ("unknown").\<close>

definition unknown_name :: string where
  "unknown_name = [CHR 0xE6, CHR 0x9C, CHR 0xAA, CHR 0xE7, CHR 0x9F, CHR 0xA5]"

text \<open>"Please choose a service type and at least one member."\<close>

definition msg_type_and_member :: string where
  "msg_type_and_member =
     [CHR 0xE8, CHR 0xAF, CHR 0xB7, CHR 0xE9, CHR 0x80, CHR 0x89, CHR 0xE6, CHR 0x8B, CHR 0xA9,
      CHR 0xE6, CHR 0x9C, CHR 0x8D, CHR 0xE5, CHR 0x8A, CHR 0xA1, CHR 0xE7, CHR 0xB1, CHR 0xBB,
      CHR 0xE5, CHR 0x9E, CHR 0x8B, CHR 0xE5, CHR 0x92, CHR 0x8C, CHR 0xE8, CHR 0x87, CHR 0xB3,
      CHR 0xE5, CHR 0xB0, CHR 0x91, CHR 0xE4, CHR 0xB8, CHR 0x80, CHR 0xE4, CHR 0xB8, CHR 0xAA,
      CHR 0xE6, CHR 0x88, CHR 0x90, CHR 0xE5, CHR 0x91, CHR 0x98]"

text \<open>"Please choose at least one date."\<close>

definition msg_one_date :: string where
  "msg_one_date =
     [CHR 0xE8, CHR 0xAF, CHR 0xB7, CHR 0xE8, CHR 0x87, CHR 0xB3, CHR 0xE5, CHR 0xB0, CHR 0x91,
      CHR 0xE9, CHR 0x80, CHR 0x89, CHR 0xE6, CHR 0x8B, CHR 0xA9, CHR 0xE4, CHR 0xB8, CHR 0x80,
      CHR 0xE4, CHR 0xB8, CHR 0xAA, CHR 0xE6, CHR 0x97, CHR 0xA5, CHR 0xE6, CHR 0x9C, CHR 0x9F]"

text \<open>"No assignment was generated, please check the date range and the weekday."\<close>

definition msg_no_records :: string where
  "msg_no_records =
     [CHR 0xE6, CHR 0xB2, CHR 0xA1, CHR 0xE6, CHR 0x9C, CHR 0x89, CHR 0xE7, CHR 0x94, CHR 0x9F,
      CHR 0xE6, CHR 0x88, CHR 0x90, CHR 0xE4, CHR 0xBB, CHR 0xBB, CHR 0xE4, CHR 0xBD, CHR 0x95,
      CHR 0xE6, CHR 0x8E, CHR 0x92, CHR 0xE7, CHR 0x8F, CHR 0xAD, CHR 0xE8, CHR 0xAE, CHR 0xB0,
      CHR 0xE5, CHR 0xBD, CHR 0x95, CHR 0xEF, CHR 0xBC, CHR 0x8C, CHR 0xE8, CHR 0xAF, CHR 0xB7,
      CHR 0xE6, CHR 0xA3, CHR 0x80, CHR 0xE6, CHR 0x9F, CHR 0xA5, CHR 0xE6, CHR 0x97, CHR 0xA5,
      CHR 0xE6, CHR 0x9C, CHR 0x9F, CHR 0xE8, CHR 0x8C, CHR 0x83, CHR 0xE5, CHR 0x9B, CHR 0xB4,
      CHR 0xE5, CHR 0x92, CHR 0x8C, CHR 0xE6, CHR 0x98, CHR 0x9F, CHR 0xE6, CHR 0x9C, CHR 0x9F,
      CHR 0xE8, CHR 0xAE, CHR 0xBE, CHR 0xE7, CHR 0xBD, CHR 0xAE]"

text \<open>"Creation failed."\<close>

definition msg_create_failed :: string where
  "msg_create_failed =
     [CHR 0xE5, CHR 0x88, CHR 0x9B, CHR 0xE5, CHR 0xBB, CHR 0xBA, CHR 0xE5, CHR 0xA4, CHR 0xB1,
      CHR 0xE8, CHR 0xB4, CHR 0xA5]"

section \<open>The rotation\<close>

text \<open>
  \<open>member?.name || unknown\<close> for \<open>member = members.find((m) => m.id === memberId)\<close>:
  the first member with that id; the placeholder when there is none or when its name is
  the empty string.
\<close>

definition resolveName :: "Member list \<Rightarrow> string \<Rightarrow> string" where
  "resolveName ms mId =
     (case find (\<lambda>m. id_m m = mId) ms of
        None \<Rightarrow> unknown_name
      | Some member \<Rightarrow> (if name_m member = [] then unknown_name else name_m member))"

text \<open>
  The loop \<open>dates.forEach((date, index) => ... result.push(...))\<close>, identical in both
  variants. It starts at \<open>index = 0\<close>; both callers reach it only with a non-empty
  \<open>selectedMemberIds\<close>, so \<open>index % length\<close> is an index of that array.
\<close>

fun forEach_push :: "nat \<Rightarrow> string list \<Rightarrow> string list \<Rightarrow> Member list \<Rightarrow> PreviewAssignment list" where
  "forEach_push index [] ids ms = []"
| "forEach_push index (d # dates) ids ms =
     (let memberIndex = index mod length ids;
          mId = ids ! memberIndex
      in \<lparr>date = d, memberId = mId, memberName = resolveName ms mId\<rparr>
           # forEach_push (Suc index) dates ids ms)"

section \<open>Variant with explicit date selection\<close>

text \<open>
  \<open>toggleDate\<close>: copy the set, delete the date when present, add it at the end otherwise.
\<close>

definition toggleDate :: "string \<Rightarrow> string list \<Rightarrow> string list" where
  "toggleDate d sel = (if d \<in> set sel then removeAll d sel else sel @ [d])"

text \<open>
  \<open>Array.from(selectedDates).sort()\<close>: the default sort compares strings by code units,
  which is the lexicographic order on \<open>string\<close>.
\<close>

definition sortedDates :: "string list \<Rightarrow> string list" where
  "sortedDates sel = sort sel"

text \<open>The local \<open>dates\<close> of \<open>previewAssignments\<close>: the date set of this variant.\<close>

abbreviation dates_sel :: "SelState \<Rightarrow> string list" where
  "dates_sel st \<equiv> sortedDates (selectedDates st)"

text \<open>
  \<open>previewAssignments\<close> of this variant, a \<open>useMemo\<close> over \<open>serviceTypeId\<close>,
  \<open>selectedDates\<close>, \<open>selectedMemberIds\<close> and \<open>members\<close>. \<open>!serviceTypeId\<close> holds
  for the empty string.
\<close>

definition previewAssignments_sel :: "SelState \<Rightarrow> PreviewAssignment list" where
  "previewAssignments_sel st =
     (if serviceTypeId st = [] \<or> length (selectedMemberIds st) = 0 \<or> length (selectedDates st) = 0
      then []
      else forEach_push 0 (sortedDates (selectedDates st)) (selectedMemberIds st) (members st))"


section \<open>Variant with a date range and a weekday\<close>

subsection \<open>The \<open>Date\<close> operations used by \<open>generateDates\<close>\<close>

text \<open>
  A \<open>Date\<close> holds a time value, the milliseconds since 1970-01-01T00:00Z, or \<open>NaN\<close>
  (\<open>None\<close> below). The local time zone of the browser is a parameter \<open>tza\<close>, its offset
  from UTC in milliseconds, taken to be the same over the whole range (no daylight-saving
  change). The day number of a civil date follows the language standard
  (\<open>DayFromYear\<close>, \<open>MakeDay\<close>); months are counted from 1 here.
\<close>

definition msPerDay :: int where
  "msPerDay = 86400000"

definition DayFromYear :: "int \<Rightarrow> int" where
  "DayFromYear y = 365 * (y - 1970) + (y - 1969) div 4 - (y - 1901) div 100 + (y - 1601) div 400"

definition InLeapYear :: "int \<Rightarrow> bool" where
  "InLeapYear y = (if y mod 400 = 0 then True else if y mod 100 = 0 then False else y mod 4 = 0)"

definition DaysInMonth :: "int \<Rightarrow> int \<Rightarrow> int" where
  "DaysInMonth y m =
     (if m = 2 then (if InLeapYear y then 29 else 28)
      else if m = 4 \<or> m = 6 \<or> m = 9 \<or> m = 11 then 30 else 31)"

definition MakeDay :: "int \<Rightarrow> int \<Rightarrow> int \<Rightarrow> int" where
  "MakeDay y m dt = DayFromYear y + sum_list (map (DaysInMonth y) [1..m - 1]) + dt - 1"

text \<open>\<open>WeekDay(t) = (Day(t) + 4) modulo 7\<close>, 0 for Sunday: 1970-01-01 was a Thursday.\<close>

definition WeekDay :: "int \<Rightarrow> int" where
  "WeekDay t = (t div msPerDay + 4) mod 7"

text \<open>
  Year, month and day of month of a day number (\<open>YearFromTime\<close>, \<open>MonthFromTime\<close>,
  \<open>DateFromTime\<close>), computed in closed form over 400-year eras that start on 1 March.
\<close>

definition civil :: "int \<Rightarrow> int \<times> int \<times> int" where
  "civil n =
     (let z = n + 719468;
          era = z div 146097;
          doe = z - era * 146097;
          yoe = (doe - doe div 1460 + doe div 36524 - doe div 146096) div 365;
          doy = doe - (365 * yoe + yoe div 4 - yoe div 100);
          mp = (5 * doy + 2) div 153;
          dd = doy - (153 * mp + 2) div 5 + 1;
          m = (if mp < 10 then mp + 3 else mp - 9);
          y = yoe + era * 400 + (if m \<le> 2 then 1 else 0)
      in (y, m, dd))"

definition digit :: "int \<Rightarrow> char" where
  "digit k = ''0123456789'' ! nat k"

definition pad2 :: "int \<Rightarrow> string" where
  "pad2 k = [digit (k div 10 mod 10), digit (k mod 10)]"

definition pad4 :: "int \<Rightarrow> string" where
  "pad4 k = pad2 (k div 100) @ pad2 k"

definition pad6 :: "int \<Rightarrow> string" where
  "pad6 k = pad2 (k div 10000) @ pad4 k"

text \<open>
  \<open>d.toISOString().split("T")[0]\<close>: the UTC date of the time value, with a four-digit
  year from 0 to 9999 and a signed six-digit year otherwise.
\<close>

definition isoDate :: "int \<Rightarrow> string" where
  "isoDate t =
     (case civil (t div msPerDay) of (y, m, dd) \<Rightarrow>
        (if 0 \<le> y \<and> y \<le> 9999 then pad4 y
         else if y < 0 then CHR ''-'' # pad6 (- y) else CHR ''+'' # pad6 y)
        @ ''-'' @ pad2 m @ ''-'' @ pad2 dd)"

definition digitVal :: "char \<Rightarrow> int option" where
  "digitVal c = map_of (zip ''0123456789'' [0, 1, 2, 3, 4, 5, 6, 7, 8, 9]) c"

fun digitsVal :: "int \<Rightarrow> string \<Rightarrow> int option" where
  "digitsVal acc [] = Some acc"
| "digitsVal acc (c # cs) =
     (case digitVal c of None \<Rightarrow> None | Some v \<Rightarrow> digitsVal (10 * acc + v) cs)"

text \<open>
  \<open>new Date(s)\<close> for the values a date input yields: the empty string, or a date
  \<open>YYYY-MM-DD\<close>, which is read as midnight UTC of that day. Any other text is taken as an
  invalid date here.
\<close>

definition parseDate :: "string \<Rightarrow> int option" where
  "parseDate s =
     (if length s = 10 \<and> s ! 4 = CHR ''-'' \<and> s ! 7 = CHR ''-'' then
        (case (digitsVal 0 (take 4 s), digitsVal 0 (take 2 (drop 5 s)), digitsVal 0 (drop 8 s)) of
           (Some y, Some m, Some dd) \<Rightarrow>
             (if 1 \<le> m \<and> m \<le> 12 \<and> 1 \<le> dd \<and> dd \<le> DaysInMonth y m
              then Some (MakeDay y m dd * msPerDay) else None)
         | _ \<Rightarrow> None)
      else None)"

text \<open>\<open>d.getDay()\<close>: the weekday of the local time.\<close>

definition getDay :: "int \<Rightarrow> int \<Rightarrow> int" where
  "getDay tza t = WeekDay (t + tza)"

subsection \<open>\<open>generateDates\<close> and the preview\<close>

text \<open>
  The loop \<open>for (d = new Date(start); d <= end; d.setDate(d.getDate() + 1))\<close>.
  \<open>setDate(getDate() + 1)\<close> moves the local date one day on and keeps the local time of
  day; with a constant offset that adds \<open>msPerDay\<close> to the time value.
\<close>

function dayLoop :: "int \<Rightarrow> int \<Rightarrow> int \<Rightarrow> int \<Rightarrow> string list" where
  "dayLoop tza d e w =
     (if d \<le> e
      then (if getDay tza d = w then [isoDate d] else []) @ dayLoop tza (d + msPerDay) e w
      else [])"
  by pat_completeness auto
termination
  by (relation "measure (\<lambda>(tza, d, e, w). nat (e - d + 1))") (auto simp: msPerDay_def)

declare dayLoop.simps [simp del]

text \<open>
  A comparison with \<open>NaN\<close> is false, so an invalid start or end leaves the loop at once.
\<close>

definition generateDates :: "int \<Rightarrow> string \<Rightarrow> string \<Rightarrow> int \<Rightarrow> string list" where
  "generateDates tza startD endD w =
     (case (parseDate startD, parseDate endD) of
        (Some s, Some e) \<Rightarrow> dayLoop tza s e w
      | _ \<Rightarrow> [])"

text \<open>
  The local \<open>dates\<close> of \<open>previewAssignments\<close>: the date set of this variant, in a
  browser whose time zone has offset \<open>tza\<close>.
\<close>

abbreviation dates_rng :: "int \<Rightarrow> RngState \<Rightarrow> string list" where
  "dates_rng tza rt \<equiv> generateDates tza (startDate rt) (endDate rt) (dayOfWeek rt)"

text \<open>
  \<open>previewAssignments\<close> of this variant, a \<open>useMemo\<close> over \<open>serviceTypeId\<close>, \<open>startDate\<close>,
  \<open>endDate\<close>, \<open>dayOfWeek\<close>, \<open>selectedMemberIds\<close> and \<open>members\<close>.
\<close>

definition previewAssignments_rng :: "int \<Rightarrow> RngState \<Rightarrow> PreviewAssignment list" where
  "previewAssignments_rng tza st =
     (if serviceTypeId st = [] \<or> length (selectedMemberIds st) = 0 then []
      else forEach_push 0 (generateDates tza (startDate st) (endDate st) (dayOfWeek st))
             (selectedMemberIds st) (members st))"

section \<open>Commit\<close>

text \<open>
  \<open>createBatchServiceAssignments\<close> sends one insert to the hosted store and either returns
  or throws the store's error, of which \<open>handleSubmit\<close> reads the message. The store is not
  part of the program: its answer to a batch is a parameter \<open>reply\<close>.
\<close>

datatype insert_reply = Inserted | Rejected string

text \<open>
  What one run of \<open>handleSubmit\<close> leaves behind: the component state, the batches passed
  to \<open>createBatchServiceAssignments\<close> in order, and the routes given to \<open>router.push\<close>.
\<close>

record 'st submit_outcome =
  state_after :: 'st
  inserted :: "ServiceAssignment list list"
  pushed :: "string list"

definition toRows :: "string \<Rightarrow> string \<Rightarrow> PreviewAssignment list \<Rightarrow> ServiceAssignment list" where
  "toRows org sid ps =
     map (\<lambda>p. \<lparr>org_id = org, service_type_id = sid, member_id = memberId p,
               service_date = date p, status = ''scheduled''\<rparr>) ps"

text \<open>The \<open>try\<close> block, the same in both variants; \<open>err.message || fallback\<close> in the handler.\<close>

definition submitRows :: "(ServiceAssignment list \<Rightarrow> insert_reply) \<Rightarrow> 'a Common_scheme \<Rightarrow>
    PreviewAssignment list \<Rightarrow> 'a Common_scheme submit_outcome" where
  "submitRows reply st preview =
     (let assignments = toRows (orgId st) (serviceTypeId st) preview
      in case reply assignments of
           Inserted \<Rightarrow>
             \<lparr>state_after = st, inserted = [assignments], pushed = [''/services'']\<rparr>
         | Rejected msg \<Rightarrow>
             \<lparr>state_after = st\<lparr>error := (if msg = [] then msg_create_failed else msg),
                                  submitting := False\<rparr>,
              inserted = [assignments], pushed = []\<rparr>)"

definition failWith :: "string \<Rightarrow> 'a Common_scheme \<Rightarrow> 'a Common_scheme submit_outcome" where
  "failWith msg st =
     \<lparr>state_after = st\<lparr>error := msg, submitting := False\<rparr>, inserted = [], pushed = []\<rparr>"

definition handleSubmit_sel :: "(ServiceAssignment list \<Rightarrow> insert_reply) \<Rightarrow> SelState \<Rightarrow>
    SelState submit_outcome" where
  "handleSubmit_sel reply st0 =
     (let st = st0\<lparr>error := [], submitting := True\<rparr>
      in if serviceTypeId st0 = [] \<or> length (selectedMemberIds st0) = 0
         then failWith msg_type_and_member st
         else if length (selectedDates st0) = 0
         then failWith msg_one_date st
         else submitRows reply st (previewAssignments_sel st0))"

definition handleSubmit_rng :: "int \<Rightarrow> (ServiceAssignment list \<Rightarrow> insert_reply) \<Rightarrow> RngState \<Rightarrow>
    RngState submit_outcome" where
  "handleSubmit_rng tza reply st0 =
     (let st = st0\<lparr>error := [], submitting := True\<rparr>
      in if serviceTypeId st0 = [] \<or> length (selectedMemberIds st0) = 0
         then failWith msg_type_and_member st
         else if length (previewAssignments_rng tza st0) = 0
         then failWith msg_no_records st
         else submitRows reply st (previewAssignments_rng tza st0))"

section \<open>Notions used by the properties\<close>

text \<open>How many rows of a preview name a given member.\<close>

definition appearances :: "PreviewAssignment list \<Rightarrow> string \<Rightarrow> nat" where
  "appearances out m = count_list (map memberId out) m"

text \<open>
  Two states to run the functions on: three dates picked out of order for two members, and
  the Wednesdays of January 2025 for the same two members.
\<close>

definition example_sel :: SelState where
  "example_sel =
     \<lparr>orgId = ''org-1'',
      serviceTypes = [\<lparr>id_t = ''t1'', name_t = ''sermon'', frequency = ''weekly''\<rparr>],
      members = [\<lparr>id_m = ''A'', name_m = ''Ann''\<rparr>, \<lparr>id_m = ''B'', name_m = ''Bob''\<rparr>],
      loading = False, error = [], submitting = False, serviceTypeId = ''t1'',
      selectedMemberIds = [''A'', ''B''], monthCount = 3,
      selectedDates = [''2025-01-19'', ''2025-01-05'', ''2025-01-12'']\<rparr>"

definition example_rng :: RngState where
  "example_rng =
     \<lparr>orgId = ''org-1'',
      serviceTypes = [\<lparr>id_t = ''t1'', name_t = ''sermon'', frequency = ''weekly''\<rparr>],
      members = [\<lparr>id_m = ''A'', name_m = ''Ann''\<rparr>, \<lparr>id_m = ''B'', name_m = ''Bob''\<rparr>],
      loading = False, error = [], submitting = False, serviceTypeId = ''t1'',
      selectedMemberIds = [''A'', ''B''], startDate = ''2025-01-01'', endDate = ''2025-01-31'',
      dayOfWeek = 3, showPreview = True\<rparr>"

section \<open>Properties of the loop\<close>

lemma forEach_push_length: "length (forEach_push i ds ids ms) = length ds"
  by (induction ds arbitrary: i) (simp_all add: Let_def)

lemma forEach_push_dates: "map date (forEach_push i ds ids ms) = ds"
  by (induction ds arbitrary: i) (simp_all add: Let_def)

lemma forEach_push_nth:
  "k < length ds \<Longrightarrow>
     forEach_push i ds ids ms ! k =
       \<lparr>date = ds ! k, memberId = ids ! ((i + k) mod length ids),
        memberName = resolveName ms (ids ! ((i + k) mod length ids))\<rparr>"
proof (induction ds arbitrary: i k)
  case Nil
  then show ?case by simp
next
  case (Cons d ds)
  show ?case
  proof (cases k)
    case 0
    then show ?thesis by (simp add: Let_def)
  next
    case (Suc j)
    with Cons.prems have "j < length ds" by simp
    from Cons.IH [OF this, of "Suc i"] Suc show ?thesis by (simp add: Let_def)
  qed
qed

lemma sortedDates_Nil_iff: "sortedDates sel = [] \<longleftrightarrow> sel = []"
  by (metis length_0_conv length_sort sortedDates_def)

lemma preview_sel_chosen:
  "serviceTypeId st \<noteq> [] \<Longrightarrow> selectedMemberIds st \<noteq> [] \<Longrightarrow> selectedDates st \<noteq> [] \<Longrightarrow>
     previewAssignments_sel st =
       forEach_push 0 (sortedDates (selectedDates st)) (selectedMemberIds st) (members st)"
  by (simp add: previewAssignments_sel_def)

lemma preview_rng_chosen:
  "serviceTypeId st \<noteq> [] \<Longrightarrow> selectedMemberIds st \<noteq> [] \<Longrightarrow>
     previewAssignments_rng tza st =
       forEach_push 0 (generateDates tza (startDate st) (endDate st) (dayOfWeek st))
         (selectedMemberIds st) (members st)"
  by (simp add: previewAssignments_rng_def)

lemma preview_sel_no_type: "serviceTypeId st = [] \<Longrightarrow> previewAssignments_sel st = []"
  by (simp add: previewAssignments_sel_def)

lemma preview_rng_no_type: "serviceTypeId rt = [] \<Longrightarrow> previewAssignments_rng tza rt = []"
  by (simp add: previewAssignments_rng_def)

lemma forEach_push_same_names:
  "ids \<noteq> [] \<Longrightarrow> \<forall>m \<in> set ids. resolveName ms m = resolveName ms' m \<Longrightarrow>
     forEach_push i ds ids ms = forEach_push i ds ids ms'"
proof (induction ds arbitrary: i)
  case Nil
  then show ?case by simp
next
  case (Cons d ds)
  from Cons.prems(1) have "i mod length ids < length ids" by simp
  then have "ids ! (i mod length ids) \<in> set ids" by (rule nth_mem)
  with Cons.prems(2) have "resolveName ms (ids ! (i mod length ids)) =
      resolveName ms' (ids ! (i mod length ids))" by blast
  with Cons.IH [OF Cons.prems, of "Suc i"] show ?case by (simp add: Let_def)
qed

lemma forEach_push_memberId:
  "k < length ds \<Longrightarrow> memberId (forEach_push 0 ds ids ms ! k) = ids ! (k mod length ids)"
  by (simp add: forEach_push_nth)

lemma count_mod:
  "0 < k \<Longrightarrow> j < k \<Longrightarrow>
     length (filter (\<lambda>i. i mod k = j) [0..<n]) = n div k + (if j < n mod k then 1 else 0)"
  by (induction n) (auto simp: mod_Suc div_Suc)

lemma forEach_push_memberIds:
  "map memberId (forEach_push i ds ids ms) = map (\<lambda>q. ids ! (q mod length ids)) [i..<i + length ds]"
proof (induction ds arbitrary: i)
  case Nil
  then show ?case by simp
next
  case (Cons d ds)
  have "[i..<i + length (d # ds)] = i # [Suc i..<Suc i + length ds]"
    by (simp add: upt_rec)
  with Cons.IH [of "Suc i"] show ?case by (simp add: Let_def)
qed

lemma count_list_filter: "count_list xs x = length (filter (\<lambda>y. y = x) xs)"
  by (induction xs) auto

lemma appearances_forEach_push:
  assumes "distinct ids" and "j < length ids"
  shows "appearances (forEach_push 0 ds ids ms) (ids ! j) =
           length ds div length ids + (if j < length ds mod length ids then 1 else 0)"
proof -
  have k: "0 < length ids" using assms(2) by (cases ids) auto
  have eq: "\<And>q. (ids ! (q mod length ids) = ids ! j) = (q mod length ids = j)"
    using assms k by (simp add: nth_eq_iff_index_eq)
  have "appearances (forEach_push 0 ds ids ms) (ids ! j) =
          length (filter (\<lambda>q. ids ! (q mod length ids) = ids ! j) [0..<length ds])"
    by (simp add: appearances_def count_list_filter forEach_push_memberIds filter_map comp_def)
  also have "\<dots> = length (filter (\<lambda>q. q mod length ids = j) [0..<length ds])"
    by (simp only: eq)
  also have "\<dots> = length ds div length ids + (if j < length ds mod length ids then 1 else 0)"
    using k assms(2) by (rule count_mod)
  finally show ?thesis .
qed

lemma resolveName_absent: "m \<notin> id_m ` set ms \<Longrightarrow> resolveName ms m = unknown_name"
proof -
  assume "m \<notin> id_m ` set ms"
  then have "find (\<lambda>x. id_m x = m) ms = None"
    by (auto simp: find_None_iff)
  then show ?thesis by (simp add: resolveName_def)
qed

lemma toRows_length: "length (toRows org sid ps) = length ps"
  by (simp add: toRows_def)

lemma toRows_nth:
  "i < length ps \<Longrightarrow>
     toRows org sid ps ! i =
       \<lparr>org_id = org, service_type_id = sid, member_id = memberId (ps ! i),
        service_date = date (ps ! i), status = ''scheduled''\<rparr>"
  by (simp add: toRows_def)

lemma toRows_forEach_push_members:
  "toRows org sid (forEach_push i ds ids ms) = toRows org sid (forEach_push i ds ids ms')"
  by (induction ds arbitrary: i) (simp_all add: toRows_def Let_def)

lemma inserted_submitRows: "inserted (submitRows reply st ps) = [toRows (orgId st) (serviceTypeId st) ps]"
  by (cases "reply (toRows (orgId st) (serviceTypeId st) ps)") (simp_all add: submitRows_def Let_def)

lemma inserted_failWith: "inserted (failWith msg st) = []"
  by (simp add: failWith_def)

lemma toggleDate_distinct: "distinct sel \<Longrightarrow> distinct (toggleDate d sel)"
  by (simp add: toggleDate_def distinct_removeAll)

lemma fold_toggleDate_distinct: "distinct sel \<Longrightarrow> distinct (fold toggleDate cs sel)"
  by (induction cs arbitrary: sel) (simp_all add: toggleDate_distinct)

lemma toggleDate_mem: "x \<in> set (toggleDate d sel) \<longleftrightarrow> (if x = d then x \<notin> set sel else x \<in> set sel)"
  by (auto simp: toggleDate_def)

lemma fold_toggleDate_mem:
  "x \<in> set (fold toggleDate cs sel) \<longleftrightarrow> (x \<in> set sel) \<noteq> odd (count_list cs x)"
  by (induction cs arbitrary: sel) (auto simp: toggleDate_mem)

lemma sortedDates_unique:
  "distinct sel \<Longrightarrow> distinct sel' \<Longrightarrow> set sel = set sel' \<Longrightarrow> sortedDates sel = sortedDates sel'"
  unfolding sortedDates_def
  by (intro sorted_distinct_set_unique) simp_all

section \<open>Properties of the date sets\<close>

lemma sortedDates_sorted: "sorted (sortedDates sel)"
  by (simp add: sortedDates_def)

lemma sortedDates_set: "set (sortedDates sel) = set sel"
  by (simp add: sortedDates_def)

lemma sortedDates_distinct: "distinct (sortedDates sel) = distinct sel"
  by (simp add: sortedDates_def)

lemma toggled_set: "set (fold toggleDate cs []) = {d. odd (count_list cs d)}"
  by (auto simp: fold_toggleDate_mem)

text \<open>
  The loop of \<open>generateDates\<close> over whole days, for a browser whose offset from UTC is
  constant over the range (\<open>tza\<close> is one number: a range that contains a daylight-saving
  change is outside these lemmas). The loop keeps the days whose local weekday, at midnight
  UTC, is the one asked for. With a constant offset east of UTC (and at UTC) that is the
  weekday of the day itself; with a constant offset west of UTC it is the weekday of the
  day before.
\<close>

lemma dayLoop_days:
  "dayLoop tza (a * msPerDay) (b * msPerDay) w =
     map (\<lambda>n. isoDate (n * msPerDay))
       (filter (\<lambda>n. WeekDay (n * msPerDay + tza) = w) [a..b])"
proof (induction "nat (b - a + 1)" arbitrary: a)
  case 0
  then have "b < a" by simp
  then have "\<not> a * msPerDay \<le> b * msPerDay" by (simp add: msPerDay_def)
  with \<open>b < a\<close> show ?case by (subst dayLoop.simps) simp
next
  case (Suc k)
  then have le: "a \<le> b" by simp
  then have le': "a * msPerDay \<le> b * msPerDay" by (simp add: msPerDay_def)
  have k: "k = nat (b - (a + 1) + 1)" using Suc.hyps(2) by simp
  have ih: "dayLoop tza ((a + 1) * msPerDay) (b * msPerDay) w =
     map (\<lambda>n. isoDate (n * msPerDay))
       (filter (\<lambda>n. WeekDay (n * msPerDay + tza) = w) [a + 1..b])"
    by (rule Suc.hyps(1) [OF k])
  have step: "a * msPerDay + msPerDay = (a + 1) * msPerDay"
    by (simp add: algebra_simps)
  have up: "[a..b] = a # [a + 1..b]" using le by (simp add: upto_rec1)
  show ?case
    by (subst dayLoop.simps) (simp add: le' step ih up getDay_def)
qed

lemma WeekDay_local_east:
  "0 \<le> tza \<Longrightarrow> tza < msPerDay \<Longrightarrow> WeekDay (n * msPerDay + tza) = (n + 4) mod 7"
  by (simp add: WeekDay_def msPerDay_def)

lemma WeekDay_local_west:
  "- msPerDay \<le> tza \<Longrightarrow> tza < 0 \<Longrightarrow> WeekDay (n * msPerDay + tza) = (n + 3) mod 7"
proof -
  assume a: "- msPerDay \<le> tza" "tza < 0"
  have e: "n * msPerDay + tza = (n - 1) * msPerDay + (tza + msPerDay)"
    by (simp add: algebra_simps)
  have "((n - 1) * msPerDay + (tza + msPerDay)) div msPerDay = n - 1"
    using a by (simp add: msPerDay_def)
  then have "(n * msPerDay + tza) div msPerDay = n - 1"
    by (simp only: e)
  then show ?thesis by (simp add: WeekDay_def add.commute)
qed

lemma generateDates_days:
  "parseDate startD = Some (a * msPerDay) \<Longrightarrow> parseDate endD = Some (b * msPerDay) \<Longrightarrow>
     generateDates tza startD endD w =
       map (\<lambda>n. isoDate (n * msPerDay))
         (filter (\<lambda>n. WeekDay (n * msPerDay + tza) = w) [a..b])"
  by (simp add: generateDates_def dayLoop_days)

lemma generateDates_east_of_utc:
  "0 \<le> tza \<Longrightarrow> tza < msPerDay \<Longrightarrow>
   parseDate startD = Some (a * msPerDay) \<Longrightarrow> parseDate endD = Some (b * msPerDay) \<Longrightarrow>
     generateDates tza startD endD w =
       map (\<lambda>n. isoDate (n * msPerDay)) (filter (\<lambda>n. (n + 4) mod 7 = w) [a..b])"
  by (simp add: generateDates_days WeekDay_local_east)

lemma generateDates_west_of_utc:
  "- msPerDay \<le> tza \<Longrightarrow> tza < 0 \<Longrightarrow>
   parseDate startD = Some (a * msPerDay) \<Longrightarrow> parseDate endD = Some (b * msPerDay) \<Longrightarrow>
     generateDates tza startD endD w =
       map (\<lambda>n. isoDate (n * msPerDay)) (filter (\<lambda>n. (n + 3) mod 7 = w) [a..b])"
  by (simp add: generateDates_days WeekDay_local_west)

text \<open>
  The Wednesdays of January 2025, at UTC and eight hours east of it, and a range whose end
  precedes its start.
\<close>

lemma generateDates_at_utc:
  "generateDates 0 ''2025-01-01'' ''2025-01-31'' 3 =
     [''2025-01-01'', ''2025-01-08'', ''2025-01-15'', ''2025-01-22'', ''2025-01-29'']"
  by code_simp

lemma generateDates_east:
  "generateDates 28800000 ''2025-01-01'' ''2025-01-31'' 3 =
     [''2025-01-01'', ''2025-01-08'', ''2025-01-15'', ''2025-01-22'', ''2025-01-29'']"
  by code_simp

lemma generateDates_reversed: "generateDates (- 18000000) ''2025-01-31'' ''2025-01-01'' 3 = []"
  by code_simp


section \<open>Properties of the commit\<close>

lemma handleSubmit_sel_valid:
  "previewAssignments_sel st \<noteq> [] \<Longrightarrow>
     inserted (handleSubmit_sel reply st) =
       [toRows (orgId st) (serviceTypeId st) (previewAssignments_sel st)]"
  by (auto simp: handleSubmit_sel_def previewAssignments_sel_def Let_def inserted_submitRows
      split: if_splits)

lemma handleSubmit_rng_valid:
  "previewAssignments_rng tza rt \<noteq> [] \<Longrightarrow>
     inserted (handleSubmit_rng tza reply rt) =
       [toRows (orgId rt) (serviceTypeId rt) (previewAssignments_rng tza rt)]"
  by (auto simp: handleSubmit_rng_def previewAssignments_rng_def Let_def inserted_submitRows
      split: if_splits)

lemma failWith_fields:
  "inserted (failWith msg st) = []" "pushed (failWith msg st) = []"
  "error (state_after (failWith msg st)) = msg" "submitting (state_after (failWith msg st)) = False"
  by (simp_all add: failWith_def)

lemma msgs_nonempty:
  "msg_type_and_member \<noteq> []" "msg_one_date \<noteq> []" "msg_no_records \<noteq> []"
  by (simp_all add: msg_type_and_member_def msg_one_date_def msg_no_records_def)

lemma preview_sel_rows_members:
  "toRows org sid (previewAssignments_sel (st\<lparr>members := ms\<rparr>)) =
   toRows org sid (previewAssignments_sel (st\<lparr>members := ms'\<rparr>))"
  by (simp add: previewAssignments_sel_def toRows_forEach_push_members [where ms = ms and ms' = ms'])

lemma preview_rng_rows_members:
  "toRows org sid (previewAssignments_rng tza (rt\<lparr>members := ms\<rparr>)) =
   toRows org sid (previewAssignments_rng tza (rt\<lparr>members := ms'\<rparr>))"
  by (simp add: previewAssignments_rng_def toRows_forEach_push_members [where ms = ms and ms' = ms'])

lemma preview_rng_length_members:
  "length (previewAssignments_rng tza (rt\<lparr>members := ms\<rparr>)) =
   length (previewAssignments_rng tza (rt\<lparr>members := ms'\<rparr>))"
  by (simp add: previewAssignments_rng_def forEach_push_length)

section \<open>The example states\<close>

lemma example_sel_dates:
  "dates_sel example_sel = [''2025-01-05'', ''2025-01-12'', ''2025-01-19'']"
  by code_simp

lemma example_rng_dates:
  "dates_rng 0 example_rng =
     [''2025-01-01'', ''2025-01-08'', ''2025-01-15'', ''2025-01-22'', ''2025-01-29'']"
  by code_simp

lemma example_sel_preview:
  "previewAssignments_sel example_sel =
     [\<lparr>date = ''2025-01-05'', memberId = ''A'', memberName = ''Ann''\<rparr>,
      \<lparr>date = ''2025-01-12'', memberId = ''B'', memberName = ''Bob''\<rparr>,
      \<lparr>date = ''2025-01-19'', memberId = ''A'', memberName = ''Ann''\<rparr>]"
  by code_simp

lemma example_rng_preview:
  "previewAssignments_rng 0 example_rng =
     [\<lparr>date = ''2025-01-01'', memberId = ''A'', memberName = ''Ann''\<rparr>,
      \<lparr>date = ''2025-01-08'', memberId = ''B'', memberName = ''Bob''\<rparr>,
      \<lparr>date = ''2025-01-15'', memberId = ''A'', memberName = ''Ann''\<rparr>,
      \<lparr>date = ''2025-01-22'', memberId = ''B'', memberName = ''Bob''\<rparr>,
      \<lparr>date = ''2025-01-29'', memberId = ''A'', memberName = ''Ann''\<rparr>]"
  by code_simp

text \<open>The same range state gives other previews at UTC and five hours west of it.\<close>

lemma preview_rng_depends_on_zone:
  "map date (previewAssignments_rng 0 example_rng) =
     [''2025-01-01'', ''2025-01-08'', ''2025-01-15'', ''2025-01-22'', ''2025-01-29''] \<and>
   map date (previewAssignments_rng (- 18000000) example_rng) =
     [''2025-01-02'', ''2025-01-09'', ''2025-01-16'', ''2025-01-23'', ''2025-01-30'']"
  by code_simp

section \<open>The rotation engine\<close>

text \<open>
  C5. With no date selected, or with no member selected, the preview is the empty list,
  whatever the other cells hold; in the range variant this covers a range that generates no
  date. \<open>previewAssignments\<close> has no raising path: the result is an ordinary list.
\<close>

theorem empty_inputs_empty_preview:
  "previewAssignments_sel (st\<lparr>selectedDates := []\<rparr>) = [] \<and>
   previewAssignments_sel (st\<lparr>selectedMemberIds := []\<rparr>) = [] \<and>
   previewAssignments_rng tza (rt\<lparr>selectedMemberIds := []\<rparr>) = [] \<and>
   (dates_rng tza rt = [] \<longrightarrow> previewAssignments_rng tza rt = [])"
  by (simp add: previewAssignments_sel_def previewAssignments_rng_def)

theorem empty_inputs_empty_preview_witness:
  "dates_rng 0 (example_rng\<lparr>startDate := ''2025-02-01''\<rparr>) = [] \<and>
   previewAssignments_rng 0 (example_rng\<lparr>startDate := ''2025-02-01''\<rparr>) = []"
proof -
  have h: "dates_rng 0 (example_rng\<lparr>startDate := ''2025-02-01''\<rparr>) = []"
    by code_simp
  from empty_inputs_empty_preview [of example_sel 0 "example_rng\<lparr>startDate := ''2025-02-01''\<rparr>"] h
  show ?thesis by blast
qed

text \<open>
  C1, as the code has it. With a service type chosen, a non-empty roster and a non-empty
  date set, the preview has one row per date, in the order of the date set (the sorted
  selection, or the generated dates), and row \<open>i\<close> names \<open>roster[i mod len(roster)]\<close>.
  With no service type chosen the preview is empty, whatever the dates and the roster.
\<close>

theorem rotation_in_order:
  "(serviceTypeId st \<noteq> [] \<and> selectedMemberIds st \<noteq> [] \<and> dates_sel st \<noteq> [] \<longrightarrow>
      length (previewAssignments_sel st) = length (dates_sel st) \<and>
      map date (previewAssignments_sel st) = dates_sel st \<and>
      (\<forall>i < length (dates_sel st).
         memberId (previewAssignments_sel st ! i) =
           selectedMemberIds st ! (i mod length (selectedMemberIds st)))) \<and>
   (serviceTypeId rt \<noteq> [] \<and> selectedMemberIds rt \<noteq> [] \<and> dates_rng tza rt \<noteq> [] \<longrightarrow>
      length (previewAssignments_rng tza rt) = length (dates_rng tza rt) \<and>
      map date (previewAssignments_rng tza rt) = dates_rng tza rt \<and>
      (\<forall>i < length (dates_rng tza rt).
         memberId (previewAssignments_rng tza rt ! i) =
           selectedMemberIds rt ! (i mod length (selectedMemberIds rt)))) \<and>
   (serviceTypeId st = [] \<longrightarrow> previewAssignments_sel st = []) \<and>
   (serviceTypeId rt = [] \<longrightarrow> previewAssignments_rng tza rt = [])"
proof (intro conjI impI)
  assume a: "serviceTypeId st \<noteq> [] \<and> selectedMemberIds st \<noteq> [] \<and> dates_sel st \<noteq> []"
  then have p: "previewAssignments_sel st =
       forEach_push 0 (dates_sel st) (selectedMemberIds st) (members st)"
    by (simp add: preview_sel_chosen sortedDates_Nil_iff)
  show "length (previewAssignments_sel st) = length (dates_sel st)"
    by (simp add: p forEach_push_length)
  show "map date (previewAssignments_sel st) = dates_sel st"
    by (simp add: p forEach_push_dates)
  show "\<forall>i < length (dates_sel st).
         memberId (previewAssignments_sel st ! i) =
           selectedMemberIds st ! (i mod length (selectedMemberIds st))"
    by (simp add: p forEach_push_memberId)
next
  assume a: "serviceTypeId rt \<noteq> [] \<and> selectedMemberIds rt \<noteq> [] \<and> dates_rng tza rt \<noteq> []"
  then have p: "previewAssignments_rng tza rt =
       forEach_push 0 (dates_rng tza rt) (selectedMemberIds rt) (members rt)"
    by (simp add: preview_rng_chosen)
  show "length (previewAssignments_rng tza rt) = length (dates_rng tza rt)"
    by (simp add: p forEach_push_length)
  show "map date (previewAssignments_rng tza rt) = dates_rng tza rt"
    by (simp add: p forEach_push_dates)
  show "\<forall>i < length (dates_rng tza rt).
         memberId (previewAssignments_rng tza rt ! i) =
           selectedMemberIds rt ! (i mod length (selectedMemberIds rt))"
    by (simp add: p forEach_push_memberId)
next
  assume "serviceTypeId st = []"
  then show "previewAssignments_sel st = []"
    by (rule preview_sel_no_type)
next
  assume "serviceTypeId rt = []"
  then show "previewAssignments_rng tza rt = []"
    by (rule preview_rng_no_type)
qed

text \<open>
  C1 as stated fails without a service type: two members, three dates, an empty preview.
\<close>

theorem rotation_in_order_counterexample:
  "selectedMemberIds (example_sel\<lparr>serviceTypeId := []\<rparr>) = [''A'', ''B''] \<and>
   dates_sel (example_sel\<lparr>serviceTypeId := []\<rparr>) =
     [''2025-01-05'', ''2025-01-12'', ''2025-01-19''] \<and>
   previewAssignments_sel (example_sel\<lparr>serviceTypeId := []\<rparr>) = []"
  by code_simp

theorem rotation_in_order_witness:
  "serviceTypeId example_sel \<noteq> [] \<and> selectedMemberIds example_sel \<noteq> [] \<and>
   dates_sel example_sel \<noteq> [] \<and>
   length (previewAssignments_sel example_sel) = 3 \<and>
   map date (previewAssignments_sel example_sel) = [''2025-01-05'', ''2025-01-12'', ''2025-01-19''] \<and>
   memberId (previewAssignments_sel example_sel ! 2) = ''A'' \<and>
   serviceTypeId example_rng \<noteq> [] \<and> selectedMemberIds example_rng \<noteq> [] \<and>
   dates_rng 0 example_rng \<noteq> [] \<and>
   length (previewAssignments_rng 0 example_rng) = 5 \<and>
   map date (previewAssignments_rng 0 example_rng) =
     [''2025-01-01'', ''2025-01-08'', ''2025-01-15'', ''2025-01-22'', ''2025-01-29''] \<and>
   memberId (previewAssignments_rng 0 example_rng ! 3) = ''B'' \<and>
   serviceTypeId (example_sel\<lparr>serviceTypeId := []\<rparr>) = [] \<and>
   previewAssignments_sel (example_sel\<lparr>serviceTypeId := []\<rparr>) = [] \<and>
   serviceTypeId (example_rng\<lparr>serviceTypeId := []\<rparr>) = [] \<and>
   previewAssignments_rng 0 (example_rng\<lparr>serviceTypeId := []\<rparr>) = []"
proof -
  have hs: "serviceTypeId example_sel \<noteq> [] \<and> selectedMemberIds example_sel \<noteq> [] \<and>
            dates_sel example_sel \<noteq> []"
    by code_simp
  have hr: "serviceTypeId example_rng \<noteq> [] \<and> selectedMemberIds example_rng \<noteq> [] \<and>
            dates_rng 0 example_rng \<noteq> []"
    by code_simp
  note t = rotation_in_order [where st = example_sel and rt = example_rng and tza = 0]
  note ts = t [THEN conjunct1] and tr = t [THEN conjunct2, THEN conjunct1]
  from ts hs have s1: "length (previewAssignments_sel example_sel) = length (dates_sel example_sel)"
    and s2: "map date (previewAssignments_sel example_sel) = dates_sel example_sel"
    and s3: "\<forall>i < length (dates_sel example_sel).
         memberId (previewAssignments_sel example_sel ! i) =
           selectedMemberIds example_sel ! (i mod length (selectedMemberIds example_sel))"
    by blast+
  from tr hr have r1: "length (previewAssignments_rng 0 example_rng) = length (dates_rng 0 example_rng)"
    and r2: "map date (previewAssignments_rng 0 example_rng) = dates_rng 0 example_rng"
    and r3: "\<forall>i < length (dates_rng 0 example_rng).
         memberId (previewAssignments_rng 0 example_rng ! i) =
           selectedMemberIds example_rng ! (i mod length (selectedMemberIds example_rng))"
    by blast+
  have e1: "length (dates_sel example_sel) = 3"
    and e2: "selectedMemberIds example_sel ! (2 mod length (selectedMemberIds example_sel)) = ''A''"
    and e3: "length (dates_rng 0 example_rng) = 5"
    and e4: "selectedMemberIds example_rng ! (3 mod length (selectedMemberIds example_rng)) = ''B''"
    by code_simp+
  have a1: "length (previewAssignments_sel example_sel) = 3"
    using s1 e1 by simp
  have a2: "map date (previewAssignments_sel example_sel) = [''2025-01-05'', ''2025-01-12'', ''2025-01-19'']"
    using s2 example_sel_dates by simp
  have a3: "memberId (previewAssignments_sel example_sel ! 2) = ''A''"
    using s3 e1 e2 by simp
  have b1: "length (previewAssignments_rng 0 example_rng) = 5"
    using r1 e3 by simp
  have b2: "map date (previewAssignments_rng 0 example_rng) =
     [''2025-01-01'', ''2025-01-08'', ''2025-01-15'', ''2025-01-22'', ''2025-01-29'']"
    using r2 example_rng_dates by simp
  have b3: "memberId (previewAssignments_rng 0 example_rng ! 3) = ''B''"
    using r3 e3 e4 by simp
  have z1: "serviceTypeId (example_sel\<lparr>serviceTypeId := []\<rparr>) = []"
    and z2: "serviceTypeId (example_rng\<lparr>serviceTypeId := []\<rparr>) = []"
    by code_simp+
  note u = rotation_in_order [where st = "example_sel\<lparr>serviceTypeId := []\<rparr>" and rt = "example_rng\<lparr>serviceTypeId := []\<rparr>" and tza = 0]
  from u [THEN conjunct2, THEN conjunct2, THEN conjunct1] z1 have z3: "previewAssignments_sel (example_sel\<lparr>serviceTypeId := []\<rparr>) = []" by blast
  from u [THEN conjunct2, THEN conjunct2, THEN conjunct2] z2 have z4: "previewAssignments_rng 0 (example_rng\<lparr>serviceTypeId := []\<rparr>) = []" by blast
  from hs hr a1 a2 a3 b1 b2 b3 z1 z2 z3 z4 show ?thesis by blast
qed

text \<open>
  C2, as the code has it: with a service type chosen, a non-empty date set and a non-empty
  roster of distinct ids. If the number of dates is a multiple of the number of members,
  each member appears exactly \<open>len(dateSet) / len(roster)\<close> times in the preview; if the
  remainder \<open>r\<close> is positive, each of the first \<open>r\<close> members appears exactly once more than
  each of the others. With no service type chosen no member appears in the preview at all.
\<close>

theorem rotation_shares:
  "(serviceTypeId st \<noteq> [] \<and> dates_sel st \<noteq> [] \<and> selectedMemberIds st \<noteq> [] \<and>
    distinct (selectedMemberIds st) \<longrightarrow>
      (length (dates_sel st) mod length (selectedMemberIds st) = 0 \<longrightarrow>
         (\<forall>j < length (selectedMemberIds st).
            appearances (previewAssignments_sel st) (selectedMemberIds st ! j) =
              length (dates_sel st) div length (selectedMemberIds st))) \<and>
      (0 < length (dates_sel st) mod length (selectedMemberIds st) \<longrightarrow>
         (\<forall>j < length (dates_sel st) mod length (selectedMemberIds st).
          \<forall>j'. length (dates_sel st) mod length (selectedMemberIds st) \<le> j' \<and>
               j' < length (selectedMemberIds st) \<longrightarrow>
            appearances (previewAssignments_sel st) (selectedMemberIds st ! j) =
              appearances (previewAssignments_sel st) (selectedMemberIds st ! j') + 1))) \<and>
   (serviceTypeId rt \<noteq> [] \<and> dates_rng tza rt \<noteq> [] \<and> selectedMemberIds rt \<noteq> [] \<and>
    distinct (selectedMemberIds rt) \<longrightarrow>
      (length (dates_rng tza rt) mod length (selectedMemberIds rt) = 0 \<longrightarrow>
         (\<forall>j < length (selectedMemberIds rt).
            appearances (previewAssignments_rng tza rt) (selectedMemberIds rt ! j) =
              length (dates_rng tza rt) div length (selectedMemberIds rt))) \<and>
      (0 < length (dates_rng tza rt) mod length (selectedMemberIds rt) \<longrightarrow>
         (\<forall>j < length (dates_rng tza rt) mod length (selectedMemberIds rt).
          \<forall>j'. length (dates_rng tza rt) mod length (selectedMemberIds rt) \<le> j' \<and>
               j' < length (selectedMemberIds rt) \<longrightarrow>
            appearances (previewAssignments_rng tza rt) (selectedMemberIds rt ! j) =
              appearances (previewAssignments_rng tza rt) (selectedMemberIds rt ! j') + 1))) \<and>
   (serviceTypeId st = [] \<longrightarrow> appearances (previewAssignments_sel st) m = 0) \<and>
   (serviceTypeId rt = [] \<longrightarrow> appearances (previewAssignments_rng tza rt) m = 0)"
proof (intro conjI impI)
  assume a: "serviceTypeId st \<noteq> [] \<and> dates_sel st \<noteq> [] \<and> selectedMemberIds st \<noteq> [] \<and>
    distinct (selectedMemberIds st)"
  then have p: "previewAssignments_sel st =
       forEach_push 0 (dates_sel st) (selectedMemberIds st) (members st)"
    by (simp add: preview_sel_chosen sortedDates_Nil_iff)
  have c: "\<And>j. j < length (selectedMemberIds st) \<Longrightarrow>
      appearances (previewAssignments_sel st) (selectedMemberIds st ! j) =
        length (dates_sel st) div length (selectedMemberIds st) +
        (if j < length (dates_sel st) mod length (selectedMemberIds st) then 1 else 0)"
    using a by (simp add: p appearances_forEach_push)
  {
    assume "length (dates_sel st) mod length (selectedMemberIds st) = 0"
    then show "\<forall>j < length (selectedMemberIds st).
            appearances (previewAssignments_sel st) (selectedMemberIds st ! j) =
              length (dates_sel st) div length (selectedMemberIds st)"
      by (simp add: c)
  }
  {
    assume r: "0 < length (dates_sel st) mod length (selectedMemberIds st)"
    have lt: "length (dates_sel st) mod length (selectedMemberIds st) < length (selectedMemberIds st)"
      using a by simp
    show "\<forall>j < length (dates_sel st) mod length (selectedMemberIds st).
          \<forall>j'. length (dates_sel st) mod length (selectedMemberIds st) \<le> j' \<and>
               j' < length (selectedMemberIds st) \<longrightarrow>
            appearances (previewAssignments_sel st) (selectedMemberIds st ! j) =
              appearances (previewAssignments_sel st) (selectedMemberIds st ! j') + 1"
      using lt by (simp add: c)
  }
next
  assume a: "serviceTypeId rt \<noteq> [] \<and> dates_rng tza rt \<noteq> [] \<and> selectedMemberIds rt \<noteq> [] \<and>
    distinct (selectedMemberIds rt)"
  then have p: "previewAssignments_rng tza rt =
       forEach_push 0 (dates_rng tza rt) (selectedMemberIds rt) (members rt)"
    by (simp add: preview_rng_chosen)
  have c: "\<And>j. j < length (selectedMemberIds rt) \<Longrightarrow>
      appearances (previewAssignments_rng tza rt) (selectedMemberIds rt ! j) =
        length (dates_rng tza rt) div length (selectedMemberIds rt) +
        (if j < length (dates_rng tza rt) mod length (selectedMemberIds rt) then 1 else 0)"
    using a by (simp add: p appearances_forEach_push)
  {
    assume "length (dates_rng tza rt) mod length (selectedMemberIds rt) = 0"
    then show "\<forall>j < length (selectedMemberIds rt).
            appearances (previewAssignments_rng tza rt) (selectedMemberIds rt ! j) =
              length (dates_rng tza rt) div length (selectedMemberIds rt)"
      by (simp add: c)
  }
  {
    assume r: "0 < length (dates_rng tza rt) mod length (selectedMemberIds rt)"
    have lt: "length (dates_rng tza rt) mod length (selectedMemberIds rt) < length (selectedMemberIds rt)"
      using a by simp
    show "\<forall>j < length (dates_rng tza rt) mod length (selectedMemberIds rt).
          \<forall>j'. length (dates_rng tza rt) mod length (selectedMemberIds rt) \<le> j' \<and>
               j' < length (selectedMemberIds rt) \<longrightarrow>
            appearances (previewAssignments_rng tza rt) (selectedMemberIds rt ! j) =
              appearances (previewAssignments_rng tza rt) (selectedMemberIds rt ! j') + 1"
      using lt by (simp add: c)
  }
next
  assume "serviceTypeId st = []"
  then show "appearances (previewAssignments_sel st) m = 0"
    by (simp add: preview_sel_no_type appearances_def)
next
  assume "serviceTypeId rt = []"
  then show "appearances (previewAssignments_rng tza rt) m = 0"
    by (simp add: preview_rng_no_type appearances_def)
qed

text \<open>
  C2 as stated fails without a service type: five dates and two members, and neither member
  appears in the preview.
\<close>

theorem rotation_shares_counterexample:
  "dates_rng 0 (example_rng\<lparr>serviceTypeId := []\<rparr>) =
     [''2025-01-01'', ''2025-01-08'', ''2025-01-15'', ''2025-01-22'', ''2025-01-29''] \<and>
   selectedMemberIds (example_rng\<lparr>serviceTypeId := []\<rparr>) = [''A'', ''B''] \<and>
   appearances (previewAssignments_rng 0 (example_rng\<lparr>serviceTypeId := []\<rparr>)) ''A'' = 0 \<and>
   appearances (previewAssignments_rng 0 (example_rng\<lparr>serviceTypeId := []\<rparr>)) ''B'' = 0"
  by code_simp

theorem rotation_shares_witness:
  "serviceTypeId example_sel \<noteq> [] \<and> dates_sel example_sel \<noteq> [] \<and>
   selectedMemberIds example_sel \<noteq> [] \<and> distinct (selectedMemberIds example_sel) \<and>
   0 < length (dates_sel example_sel) mod length (selectedMemberIds example_sel) \<and>
   appearances (previewAssignments_sel example_sel) ''A'' =
     appearances (previewAssignments_sel example_sel) ''B'' + 1 \<and>
   serviceTypeId (example_rng\<lparr>endDate := ''2025-01-22''\<rparr>) \<noteq> [] \<and>
   dates_rng 0 (example_rng\<lparr>endDate := ''2025-01-22''\<rparr>) \<noteq> [] \<and>
   selectedMemberIds (example_rng\<lparr>endDate := ''2025-01-22''\<rparr>) \<noteq> [] \<and>
   distinct (selectedMemberIds (example_rng\<lparr>endDate := ''2025-01-22''\<rparr>)) \<and>
   length (dates_rng 0 (example_rng\<lparr>endDate := ''2025-01-22''\<rparr>))
     mod length (selectedMemberIds (example_rng\<lparr>endDate := ''2025-01-22''\<rparr>)) = 0 \<and>
   appearances (previewAssignments_rng 0 (example_rng\<lparr>endDate := ''2025-01-22''\<rparr>)) ''B'' = 2 \<and>
   serviceTypeId (example_sel\<lparr>selectedMemberIds := [''B'', ''A'', ''C'']\<rparr>) \<noteq> [] \<and>
   dates_sel (example_sel\<lparr>selectedMemberIds := [''B'', ''A'', ''C'']\<rparr>) \<noteq> [] \<and>
   selectedMemberIds (example_sel\<lparr>selectedMemberIds := [''B'', ''A'', ''C'']\<rparr>) \<noteq> [] \<and>
   distinct (selectedMemberIds (example_sel\<lparr>selectedMemberIds := [''B'', ''A'', ''C'']\<rparr>)) \<and>
   length (dates_sel (example_sel\<lparr>selectedMemberIds := [''B'', ''A'', ''C'']\<rparr>))
     mod length (selectedMemberIds (example_sel\<lparr>selectedMemberIds := [''B'', ''A'', ''C'']\<rparr>)) = 0 \<and>
   appearances (previewAssignments_sel (example_sel\<lparr>selectedMemberIds := [''B'', ''A'', ''C'']\<rparr>)) ''C'' = 1 \<and>
   serviceTypeId example_rng \<noteq> [] \<and> dates_rng 0 example_rng \<noteq> [] \<and>
   selectedMemberIds example_rng \<noteq> [] \<and> distinct (selectedMemberIds example_rng) \<and>
   0 < length (dates_rng 0 example_rng) mod length (selectedMemberIds example_rng) \<and>
   appearances (previewAssignments_rng 0 example_rng) ''A'' =
     appearances (previewAssignments_rng 0 example_rng) ''B'' + 1 \<and>
   serviceTypeId (example_sel\<lparr>serviceTypeId := []\<rparr>) = [] \<and>
   appearances (previewAssignments_sel (example_sel\<lparr>serviceTypeId := []\<rparr>)) ''A'' = 0 \<and>
   serviceTypeId (example_rng\<lparr>serviceTypeId := []\<rparr>) = [] \<and>
   appearances (previewAssignments_rng 0 (example_rng\<lparr>serviceTypeId := []\<rparr>)) ''A'' = 0"
proof -
  let ?rt = "example_rng\<lparr>endDate := ''2025-01-22''\<rparr>"
  let ?st = "example_sel\<lparr>selectedMemberIds := [''B'', ''A'', ''C'']\<rparr>"
  have hs: "serviceTypeId example_sel \<noteq> [] \<and> dates_sel example_sel \<noteq> [] \<and>
      selectedMemberIds example_sel \<noteq> [] \<and> distinct (selectedMemberIds example_sel)"
    and hs': "0 < length (dates_sel example_sel) mod length (selectedMemberIds example_sel)"
    and hr: "serviceTypeId ?rt \<noteq> [] \<and> dates_rng 0 ?rt \<noteq> [] \<and>
      selectedMemberIds ?rt \<noteq> [] \<and> distinct (selectedMemberIds ?rt)"
    and hr': "length (dates_rng 0 ?rt) mod length (selectedMemberIds ?rt) = 0"
    and hs2: "serviceTypeId ?st \<noteq> [] \<and> dates_sel ?st \<noteq> [] \<and>
      selectedMemberIds ?st \<noteq> [] \<and> distinct (selectedMemberIds ?st)"
    and hs2': "length (dates_sel ?st) mod length (selectedMemberIds ?st) = 0"
    and hr2: "serviceTypeId example_rng \<noteq> [] \<and> dates_rng 0 example_rng \<noteq> [] \<and>
      selectedMemberIds example_rng \<noteq> [] \<and> distinct (selectedMemberIds example_rng)"
    and hr2': "0 < length (dates_rng 0 example_rng) mod length (selectedMemberIds example_rng)"
    by code_simp+
  note t = rotation_shares [where st = example_sel and rt = ?rt and tza = 0]
  note t2 = rotation_shares [where st = ?st and rt = example_rng and tza = 0]
  note ts = t [THEN conjunct1] and tr = t [THEN conjunct2, THEN conjunct1]
  note t2s = t2 [THEN conjunct1] and t2r = t2 [THEN conjunct2, THEN conjunct1]
  from ts hs hs' have s: "\<forall>j < length (dates_sel example_sel) mod length (selectedMemberIds example_sel).
          \<forall>j'. length (dates_sel example_sel) mod length (selectedMemberIds example_sel) \<le> j' \<and>
               j' < length (selectedMemberIds example_sel) \<longrightarrow>
            appearances (previewAssignments_sel example_sel) (selectedMemberIds example_sel ! j) =
              appearances (previewAssignments_sel example_sel) (selectedMemberIds example_sel ! j') + 1"
    by blast
  from tr hr hr' have r: "\<forall>j < length (selectedMemberIds ?rt).
            appearances (previewAssignments_rng 0 ?rt) (selectedMemberIds ?rt ! j) =
              length (dates_rng 0 ?rt) div length (selectedMemberIds ?rt)"
    by blast
  from t2s hs2 hs2' have s2: "\<forall>j < length (selectedMemberIds ?st).
            appearances (previewAssignments_sel ?st) (selectedMemberIds ?st ! j) =
              length (dates_sel ?st) div length (selectedMemberIds ?st)"
    by blast
  from t2r hr2 hr2' have r2: "\<forall>j < length (dates_rng 0 example_rng) mod length (selectedMemberIds example_rng).
          \<forall>j'. length (dates_rng 0 example_rng) mod length (selectedMemberIds example_rng) \<le> j' \<and>
               j' < length (selectedMemberIds example_rng) \<longrightarrow>
            appearances (previewAssignments_rng 0 example_rng) (selectedMemberIds example_rng ! j) =
              appearances (previewAssignments_rng 0 example_rng) (selectedMemberIds example_rng ! j') + 1"
    by blast
  have e2: "length (dates_sel example_sel) mod length (selectedMemberIds example_sel) \<le> 1"
    and e3: "1 < length (selectedMemberIds example_sel)"
    and e4: "selectedMemberIds example_sel ! 0 = ''A''"
    and e5: "selectedMemberIds example_sel ! 1 = ''B''"
    and e6: "1 < length (selectedMemberIds ?rt)"
    and e7: "selectedMemberIds ?rt ! 1 = ''B''"
    and e8: "length (dates_rng 0 ?rt) div length (selectedMemberIds ?rt) = 2"
    and f1: "2 < length (selectedMemberIds ?st)"
    and f2: "selectedMemberIds ?st ! 2 = ''C''"
    and f3: "length (dates_sel ?st) div length (selectedMemberIds ?st) = 1"
    and f4: "length (dates_rng 0 example_rng) mod length (selectedMemberIds example_rng) \<le> 1"
    and f5: "1 < length (selectedMemberIds example_rng)"
    and f6: "selectedMemberIds example_rng ! 0 = ''A''"
    and f7: "selectedMemberIds example_rng ! 1 = ''B''"
    by code_simp+
  have a: "appearances (previewAssignments_sel example_sel) ''A'' =
     appearances (previewAssignments_sel example_sel) ''B'' + 1"
    using s [rule_format, of 0 1] hs' e2 e3 e4 e5 by simp
  have b: "appearances (previewAssignments_rng 0 ?rt) ''B'' = 2"
    using r [rule_format, of 1] e6 e7 e8 by simp
  have c: "appearances (previewAssignments_sel ?st) ''C'' = 1"
    using s2 [rule_format, of 2] f1 f2 f3 by simp
  have d: "appearances (previewAssignments_rng 0 example_rng) ''A'' =
     appearances (previewAssignments_rng 0 example_rng) ''B'' + 1"
    using r2 [rule_format, of 0 1] hr2' f4 f5 f6 f7 by simp
  have z1: "serviceTypeId (example_sel\<lparr>serviceTypeId := []\<rparr>) = []"
    and z2: "serviceTypeId (example_rng\<lparr>serviceTypeId := []\<rparr>) = []"
    by code_simp+
  note u = rotation_shares [where st = "example_sel\<lparr>serviceTypeId := []\<rparr>" and rt = "example_rng\<lparr>serviceTypeId := []\<rparr>" and tza = 0 and m = "''A''"]
  from u [THEN conjunct2, THEN conjunct2, THEN conjunct1] z1 have z3: "appearances (previewAssignments_sel (example_sel\<lparr>serviceTypeId := []\<rparr>)) ''A'' = 0" by blast
  from u [THEN conjunct2, THEN conjunct2, THEN conjunct2] z2 have z4: "appearances (previewAssignments_rng 0 (example_rng\<lparr>serviceTypeId := []\<rparr>)) ''A'' = 0" by blast
  from hs hs' hr hr' hs2 hs2' hr2 hr2' a b c d z1 z2 z3 z4 show ?thesis by blast
qed

text \<open>
  C4, as the code has it: with a service type chosen and a non-empty roster, a roster
  member whose id is not in \<open>members\<close> does not shorten the preview: there is still one
  row per date, in order, and every row of that member carries the placeholder name. With
  no service type chosen the preview is empty.
\<close>

theorem missing_name_placeholder:
  "(serviceTypeId st \<noteq> [] \<and> selectedMemberIds st \<noteq> [] \<and> m \<in> set (selectedMemberIds st) \<and>
    m \<notin> id_m ` set (members st) \<longrightarrow>
      length (previewAssignments_sel st) = length (dates_sel st) \<and>
      map date (previewAssignments_sel st) = dates_sel st \<and>
      (\<forall>i < length (dates_sel st).
         selectedMemberIds st ! (i mod length (selectedMemberIds st)) = m \<longrightarrow>
           memberId (previewAssignments_sel st ! i) = m \<and>
           memberName (previewAssignments_sel st ! i) = unknown_name)) \<and>
   (serviceTypeId rt \<noteq> [] \<and> selectedMemberIds rt \<noteq> [] \<and> m' \<in> set (selectedMemberIds rt) \<and>
    m' \<notin> id_m ` set (members rt) \<longrightarrow>
      length (previewAssignments_rng tza rt) = length (dates_rng tza rt) \<and>
      map date (previewAssignments_rng tza rt) = dates_rng tza rt \<and>
      (\<forall>i < length (dates_rng tza rt).
         selectedMemberIds rt ! (i mod length (selectedMemberIds rt)) = m' \<longrightarrow>
           memberId (previewAssignments_rng tza rt ! i) = m' \<and>
           memberName (previewAssignments_rng tza rt ! i) = unknown_name)) \<and>
   (serviceTypeId st = [] \<longrightarrow> previewAssignments_sel st = []) \<and>
   (serviceTypeId rt = [] \<longrightarrow> previewAssignments_rng tza rt = [])"
proof (intro conjI impI)
  assume a: "serviceTypeId st \<noteq> [] \<and> selectedMemberIds st \<noteq> [] \<and> m \<in> set (selectedMemberIds st) \<and>
    m \<notin> id_m ` set (members st)"
  have p: "previewAssignments_sel st =
       forEach_push 0 (dates_sel st) (selectedMemberIds st) (members st)"
  proof (cases "selectedDates st = []")
    case True
    then show ?thesis by (simp add: previewAssignments_sel_def sortedDates_def)
  next
    case False
    with a show ?thesis by (simp add: preview_sel_chosen)
  qed
  show "length (previewAssignments_sel st) = length (dates_sel st)"
    by (simp add: p forEach_push_length)
  show "map date (previewAssignments_sel st) = dates_sel st"
    by (simp add: p forEach_push_dates)
  show "\<forall>i < length (dates_sel st).
         selectedMemberIds st ! (i mod length (selectedMemberIds st)) = m \<longrightarrow>
           memberId (previewAssignments_sel st ! i) = m \<and>
           memberName (previewAssignments_sel st ! i) = unknown_name"
    using a by (simp add: p forEach_push_nth resolveName_absent)
next
  assume a: "serviceTypeId rt \<noteq> [] \<and> selectedMemberIds rt \<noteq> [] \<and> m' \<in> set (selectedMemberIds rt) \<and>
    m' \<notin> id_m ` set (members rt)"
  then have p: "previewAssignments_rng tza rt =
       forEach_push 0 (dates_rng tza rt) (selectedMemberIds rt) (members rt)"
    by (simp add: preview_rng_chosen)
  show "length (previewAssignments_rng tza rt) = length (dates_rng tza rt)"
    by (simp add: p forEach_push_length)
  show "map date (previewAssignments_rng tza rt) = dates_rng tza rt"
    by (simp add: p forEach_push_dates)
  show "\<forall>i < length (dates_rng tza rt).
         selectedMemberIds rt ! (i mod length (selectedMemberIds rt)) = m' \<longrightarrow>
           memberId (previewAssignments_rng tza rt ! i) = m' \<and>
           memberName (previewAssignments_rng tza rt ! i) = unknown_name"
    using a by (simp add: p forEach_push_nth resolveName_absent)
next
  assume "serviceTypeId st = []"
  then show "previewAssignments_sel st = []"
    by (rule preview_sel_no_type)
next
  assume "serviceTypeId rt = []"
  then show "previewAssignments_rng tza rt = []"
    by (rule preview_rng_no_type)
qed

text \<open>
  C4 as stated fails without a service type: three dates, a roster with the unknown id
  \<open>Z\<close>, and an empty preview.
\<close>

theorem missing_name_placeholder_counterexample:
  "selectedMemberIds (example_sel\<lparr>serviceTypeId := [], selectedMemberIds := [''A'', ''Z'']\<rparr>) = [''A'', ''Z''] \<and>
   map id_m (members (example_sel\<lparr>serviceTypeId := [], selectedMemberIds := [''A'', ''Z'']\<rparr>)) = [''A'', ''B''] \<and>
   length (dates_sel (example_sel\<lparr>serviceTypeId := [], selectedMemberIds := [''A'', ''Z'']\<rparr>)) = 3 \<and>
   length (previewAssignments_sel (example_sel\<lparr>serviceTypeId := [], selectedMemberIds := [''A'', ''Z'']\<rparr>)) = 0"
  by code_simp

theorem missing_name_placeholder_witness:
  "serviceTypeId (example_sel\<lparr>selectedMemberIds := [''A'', ''Z'']\<rparr>) \<noteq> [] \<and>
   selectedMemberIds (example_sel\<lparr>selectedMemberIds := [''A'', ''Z'']\<rparr>) \<noteq> [] \<and>
   ''Z'' \<in> set (selectedMemberIds (example_sel\<lparr>selectedMemberIds := [''A'', ''Z'']\<rparr>)) \<and>
   ''Z'' \<notin> id_m ` set (members (example_sel\<lparr>selectedMemberIds := [''A'', ''Z'']\<rparr>)) \<and>
   length (previewAssignments_sel (example_sel\<lparr>selectedMemberIds := [''A'', ''Z'']\<rparr>)) = 3 \<and>
   memberId (previewAssignments_sel (example_sel\<lparr>selectedMemberIds := [''A'', ''Z'']\<rparr>) ! 1) = ''Z'' \<and>
   memberName (previewAssignments_sel (example_sel\<lparr>selectedMemberIds := [''A'', ''Z'']\<rparr>) ! 1) = unknown_name \<and>
   serviceTypeId (example_rng\<lparr>selectedMemberIds := [''Z'']\<rparr>) \<noteq> [] \<and>
   selectedMemberIds (example_rng\<lparr>selectedMemberIds := [''Z'']\<rparr>) \<noteq> [] \<and>
   ''Z'' \<in> set (selectedMemberIds (example_rng\<lparr>selectedMemberIds := [''Z'']\<rparr>)) \<and>
   ''Z'' \<notin> id_m ` set (members (example_rng\<lparr>selectedMemberIds := [''Z'']\<rparr>)) \<and>
   length (previewAssignments_rng 0 (example_rng\<lparr>selectedMemberIds := [''Z'']\<rparr>)) = 5 \<and>
   memberName (previewAssignments_rng 0 (example_rng\<lparr>selectedMemberIds := [''Z'']\<rparr>) ! 4) = unknown_name \<and>
   serviceTypeId (example_sel\<lparr>serviceTypeId := []\<rparr>) = [] \<and>
   previewAssignments_sel (example_sel\<lparr>serviceTypeId := []\<rparr>) = [] \<and>
   serviceTypeId (example_rng\<lparr>serviceTypeId := []\<rparr>) = [] \<and>
   previewAssignments_rng 0 (example_rng\<lparr>serviceTypeId := []\<rparr>) = []"
proof -
  let ?st = "example_sel\<lparr>selectedMemberIds := [''A'', ''Z'']\<rparr>"
  let ?rt = "example_rng\<lparr>selectedMemberIds := [''Z'']\<rparr>"
  have hs: "serviceTypeId ?st \<noteq> [] \<and> selectedMemberIds ?st \<noteq> [] \<and>
      ''Z'' \<in> set (selectedMemberIds ?st) \<and> ''Z'' \<notin> id_m ` set (members ?st)"
    and hr: "serviceTypeId ?rt \<noteq> [] \<and> selectedMemberIds ?rt \<noteq> [] \<and>
      ''Z'' \<in> set (selectedMemberIds ?rt) \<and> ''Z'' \<notin> id_m ` set (members ?rt)"
    by code_simp+
  note t = missing_name_placeholder [where st = ?st and m = "''Z''" and rt = ?rt
      and m' = "''Z''" and tza = 0]
  note ts = t [THEN conjunct1] and tr = t [THEN conjunct2, THEN conjunct1]
  from ts hs have s1: "length (previewAssignments_sel ?st) = length (dates_sel ?st)"
    and s2: "\<forall>i < length (dates_sel ?st).
         selectedMemberIds ?st ! (i mod length (selectedMemberIds ?st)) = ''Z'' \<longrightarrow>
           memberId (previewAssignments_sel ?st ! i) = ''Z'' \<and>
           memberName (previewAssignments_sel ?st ! i) = unknown_name"
    by blast+
  from tr hr have r1: "length (previewAssignments_rng 0 ?rt) = length (dates_rng 0 ?rt)"
    and r2: "\<forall>i < length (dates_rng 0 ?rt).
         selectedMemberIds ?rt ! (i mod length (selectedMemberIds ?rt)) = ''Z'' \<longrightarrow>
           memberId (previewAssignments_rng 0 ?rt ! i) = ''Z'' \<and>
           memberName (previewAssignments_rng 0 ?rt ! i) = unknown_name"
    by blast+
  have e1: "length (dates_sel ?st) = 3"
    and e2: "selectedMemberIds ?st ! (1 mod length (selectedMemberIds ?st)) = ''Z''"
    and e3: "length (dates_rng 0 ?rt) = 5"
    and e4: "selectedMemberIds ?rt ! (4 mod length (selectedMemberIds ?rt)) = ''Z''"
    by code_simp+
  have a1: "length (previewAssignments_sel ?st) = 3"
    using s1 e1 by simp
  have a2: "memberId (previewAssignments_sel ?st ! 1) = ''Z'' \<and>
      memberName (previewAssignments_sel ?st ! 1) = unknown_name"
    using s2 [rule_format, of 1] e1 e2 by simp
  have b1: "length (previewAssignments_rng 0 ?rt) = 5"
    using r1 e3 by simp
  have b2: "memberName (previewAssignments_rng 0 ?rt ! 4) = unknown_name"
    using r2 [rule_format, of 4] e3 e4 by simp
  have z1: "serviceTypeId (example_sel\<lparr>serviceTypeId := []\<rparr>) = []"
    and z2: "serviceTypeId (example_rng\<lparr>serviceTypeId := []\<rparr>) = []"
    by code_simp+
  note u = missing_name_placeholder [where st = "example_sel\<lparr>serviceTypeId := []\<rparr>" and rt = "example_rng\<lparr>serviceTypeId := []\<rparr>" and tza = 0]
  from u [THEN conjunct2, THEN conjunct2, THEN conjunct1] z1 have z3: "previewAssignments_sel (example_sel\<lparr>serviceTypeId := []\<rparr>) = []" by blast
  from u [THEN conjunct2, THEN conjunct2, THEN conjunct2] z2 have z4: "previewAssignments_rng 0 (example_rng\<lparr>serviceTypeId := []\<rparr>) = []" by blast
  from hs hr a1 a2 b1 b2 z1 z2 z3 z4 show ?thesis by blast
qed

text \<open>
  C9, as the code has it. The preview is determined by four inputs, not three: two
  component states that agree on the date set, on the roster, on the name resolved for
  every roster id and on whether a service type is chosen give the same preview, whatever
  the other cells hold (organisation, service type list, flags, error text, month count,
  the order in which the dates were picked, the rest of the member list). In the range
  variant the date set is generated inside \<open>previewAssignments\<close>; the dates agree in
  particular for the same start date, end date and weekday in the same browser time zone.
  With no service type chosen the preview is empty.
\<close>

theorem preview_determined_by_inputs:
  "((serviceTypeId st = []) = (serviceTypeId st' = []) \<and> dates_sel st = dates_sel st' \<and>
    selectedMemberIds st = selectedMemberIds st' \<and>
    (\<forall>m \<in> set (selectedMemberIds st).
       resolveName (members st) m = resolveName (members st') m) \<longrightarrow>
      previewAssignments_sel st = previewAssignments_sel st') \<and>
   ((serviceTypeId rt = []) = (serviceTypeId rt' = []) \<and> dates_rng tza rt = dates_rng tza' rt' \<and>
    selectedMemberIds rt = selectedMemberIds rt' \<and>
    (\<forall>m \<in> set (selectedMemberIds rt).
       resolveName (members rt) m = resolveName (members rt') m) \<longrightarrow>
      previewAssignments_rng tza rt = previewAssignments_rng tza' rt') \<and>
   ((serviceTypeId rt = []) = (serviceTypeId rt' = []) \<and> startDate rt = startDate rt' \<and>
    endDate rt = endDate rt' \<and> dayOfWeek rt = dayOfWeek rt' \<and>
    selectedMemberIds rt = selectedMemberIds rt' \<and>
    (\<forall>m \<in> set (selectedMemberIds rt).
       resolveName (members rt) m = resolveName (members rt') m) \<longrightarrow>
      previewAssignments_rng tza rt = previewAssignments_rng tza rt') \<and>
   (serviceTypeId st = [] \<longrightarrow> previewAssignments_sel st = []) \<and>
   (serviceTypeId rt = [] \<longrightarrow> previewAssignments_rng tza rt = [])"
proof -
  have rng: "previewAssignments_rng z r = previewAssignments_rng z' r'"
    if a: "(serviceTypeId r = []) = (serviceTypeId r' = [])"
      and d: "dates_rng z r = dates_rng z' r'"
      and i: "selectedMemberIds r = selectedMemberIds r'"
      and n: "\<forall>m \<in> set (selectedMemberIds r). resolveName (members r) m = resolveName (members r') m"
    for z z' r r'
  proof (cases "serviceTypeId r = [] \<or> selectedMemberIds r = []")
    case True
    with a i show ?thesis by (auto simp: previewAssignments_rng_def)
  next
    case False
    then have ne: "selectedMemberIds r \<noteq> []" by simp
    from False a i have "previewAssignments_rng z r =
        forEach_push 0 (dates_rng z r) (selectedMemberIds r) (members r)"
      and "previewAssignments_rng z' r' =
        forEach_push 0 (dates_rng z' r') (selectedMemberIds r) (members r')"
      by (simp_all add: previewAssignments_rng_def)
    with d forEach_push_same_names [OF ne n] show ?thesis by simp
  qed
  have sel: "previewAssignments_sel st = previewAssignments_sel st'"
    if a: "(serviceTypeId st = []) = (serviceTypeId st' = [])"
      and d: "dates_sel st = dates_sel st'"
      and i: "selectedMemberIds st = selectedMemberIds st'"
      and n: "\<forall>m \<in> set (selectedMemberIds st).
         resolveName (members st) m = resolveName (members st') m"
  proof -
    from d have e: "(selectedDates st = []) = (selectedDates st' = [])"
      by (metis sortedDates_Nil_iff)
    show ?thesis
    proof (cases "serviceTypeId st = [] \<or> selectedMemberIds st = [] \<or> selectedDates st = []")
      case True
      with a i e show ?thesis by (auto simp: previewAssignments_sel_def)
    next
      case False
      then have ne: "selectedMemberIds st \<noteq> []" by simp
      from False a i e have "previewAssignments_sel st =
          forEach_push 0 (dates_sel st) (selectedMemberIds st) (members st)"
        and "previewAssignments_sel st' =
          forEach_push 0 (dates_sel st') (selectedMemberIds st) (members st')"
        by (simp_all add: previewAssignments_sel_def)
      with d forEach_push_same_names [OF ne n] show ?thesis by simp
    qed
  qed
  show ?thesis
  proof (intro conjI impI)
    assume "(serviceTypeId st = []) = (serviceTypeId st' = []) \<and> dates_sel st = dates_sel st' \<and>
      selectedMemberIds st = selectedMemberIds st' \<and>
      (\<forall>m \<in> set (selectedMemberIds st).
         resolveName (members st) m = resolveName (members st') m)"
    then show "previewAssignments_sel st = previewAssignments_sel st'"
      using sel by blast
  next
    assume "(serviceTypeId rt = []) = (serviceTypeId rt' = []) \<and> dates_rng tza rt = dates_rng tza' rt' \<and>
      selectedMemberIds rt = selectedMemberIds rt' \<and>
      (\<forall>m \<in> set (selectedMemberIds rt).
         resolveName (members rt) m = resolveName (members rt') m)"
    then show "previewAssignments_rng tza rt = previewAssignments_rng tza' rt'"
      using rng [of rt rt' tza tza'] by blast
  next
    assume "(serviceTypeId rt = []) = (serviceTypeId rt' = []) \<and> startDate rt = startDate rt' \<and>
      endDate rt = endDate rt' \<and> dayOfWeek rt = dayOfWeek rt' \<and>
      selectedMemberIds rt = selectedMemberIds rt' \<and>
      (\<forall>m \<in> set (selectedMemberIds rt).
         resolveName (members rt) m = resolveName (members rt') m)"
    then have "(serviceTypeId rt = []) = (serviceTypeId rt' = [])"
      and "dates_rng tza rt = dates_rng tza rt'"
      and "selectedMemberIds rt = selectedMemberIds rt'"
      and "\<forall>m \<in> set (selectedMemberIds rt).
         resolveName (members rt) m = resolveName (members rt') m"
      by simp_all
    then show "previewAssignments_rng tza rt = previewAssignments_rng tza rt'"
      by (rule rng)
  next
    assume "serviceTypeId st = []"
    then show "previewAssignments_sel st = []" by (rule preview_sel_no_type)
  next
    assume "serviceTypeId rt = []"
    then show "previewAssignments_rng tza rt = []" by (rule preview_rng_no_type)
  qed
qed

text \<open>
  C9 as stated fails: the same dates, roster and member list give three rows with a service
  type chosen and none without.
\<close>

theorem preview_determined_by_inputs_counterexample:
  "dates_sel (example_sel\<lparr>serviceTypeId := []\<rparr>) = dates_sel example_sel \<and>
   selectedMemberIds (example_sel\<lparr>serviceTypeId := []\<rparr>) = selectedMemberIds example_sel \<and>
   members (example_sel\<lparr>serviceTypeId := []\<rparr>) = members example_sel \<and>
   length (previewAssignments_sel example_sel) = 3 \<and>
   length (previewAssignments_sel (example_sel\<lparr>serviceTypeId := []\<rparr>)) = 0"
  by code_simp

theorem preview_determined_by_inputs_witness:
  "(serviceTypeId example_sel = []) = (serviceTypeId (example_sel\<lparr>orgId := ''org-2'', serviceTypes := [], loading := True,
        error := ''x'', submitting := True, serviceTypeId := ''t2'', monthCount := 6,
        members := [\<lparr>id_m = ''B'', name_m = ''Bob''\<rparr>, \<lparr>id_m = ''A'', name_m = ''Ann''\<rparr>,
                    \<lparr>id_m = ''C'', name_m = ''Cy''\<rparr>],
        selectedDates := [''2025-01-12'', ''2025-01-19'', ''2025-01-05'']\<rparr>) = []) \<and>
   dates_sel example_sel = dates_sel (example_sel\<lparr>orgId := ''org-2'', serviceTypes := [], loading := True,
        error := ''x'', submitting := True, serviceTypeId := ''t2'', monthCount := 6,
        members := [\<lparr>id_m = ''B'', name_m = ''Bob''\<rparr>, \<lparr>id_m = ''A'', name_m = ''Ann''\<rparr>,
                    \<lparr>id_m = ''C'', name_m = ''Cy''\<rparr>],
        selectedDates := [''2025-01-12'', ''2025-01-19'', ''2025-01-05'']\<rparr>) \<and>
   selectedMemberIds example_sel = selectedMemberIds (example_sel\<lparr>orgId := ''org-2'', serviceTypes := [], loading := True,
        error := ''x'', submitting := True, serviceTypeId := ''t2'', monthCount := 6,
        members := [\<lparr>id_m = ''B'', name_m = ''Bob''\<rparr>, \<lparr>id_m = ''A'', name_m = ''Ann''\<rparr>,
                    \<lparr>id_m = ''C'', name_m = ''Cy''\<rparr>],
        selectedDates := [''2025-01-12'', ''2025-01-19'', ''2025-01-05'']\<rparr>) \<and>
   members example_sel \<noteq> members (example_sel\<lparr>orgId := ''org-2'', serviceTypes := [], loading := True,
        error := ''x'', submitting := True, serviceTypeId := ''t2'', monthCount := 6,
        members := [\<lparr>id_m = ''B'', name_m = ''Bob''\<rparr>, \<lparr>id_m = ''A'', name_m = ''Ann''\<rparr>,
                    \<lparr>id_m = ''C'', name_m = ''Cy''\<rparr>],
        selectedDates := [''2025-01-12'', ''2025-01-19'', ''2025-01-05'']\<rparr>) \<and>
   previewAssignments_sel example_sel = previewAssignments_sel (example_sel\<lparr>orgId := ''org-2'', serviceTypes := [], loading := True,
        error := ''x'', submitting := True, serviceTypeId := ''t2'', monthCount := 6,
        members := [\<lparr>id_m = ''B'', name_m = ''Bob''\<rparr>, \<lparr>id_m = ''A'', name_m = ''Ann''\<rparr>,
                    \<lparr>id_m = ''C'', name_m = ''Cy''\<rparr>],
        selectedDates := [''2025-01-12'', ''2025-01-19'', ''2025-01-05'']\<rparr>) \<and>
   dates_rng 0 example_rng = dates_rng 28800000 (example_rng\<lparr>startDate := ''2024-12-31'', showPreview := False\<rparr>) \<and>
   previewAssignments_rng 0 example_rng = previewAssignments_rng 28800000 (example_rng\<lparr>startDate := ''2024-12-31'', showPreview := False\<rparr>) \<and>
   startDate example_rng = startDate (example_rng\<lparr>orgId := ''org-2'', showPreview := False,
        members := [\<lparr>id_m = ''B'', name_m = ''Bob''\<rparr>, \<lparr>id_m = ''A'', name_m = ''Ann''\<rparr>]\<rparr>) \<and>
   members example_rng \<noteq> members (example_rng\<lparr>orgId := ''org-2'', showPreview := False,
        members := [\<lparr>id_m = ''B'', name_m = ''Bob''\<rparr>, \<lparr>id_m = ''A'', name_m = ''Ann''\<rparr>]\<rparr>) \<and>
   previewAssignments_rng (- 18000000) example_rng =
     previewAssignments_rng (- 18000000) (example_rng\<lparr>orgId := ''org-2'', showPreview := False,
        members := [\<lparr>id_m = ''B'', name_m = ''Bob''\<rparr>, \<lparr>id_m = ''A'', name_m = ''Ann''\<rparr>]\<rparr>) \<and>
   serviceTypeId (example_sel\<lparr>serviceTypeId := []\<rparr>) = [] \<and>
   previewAssignments_sel (example_sel\<lparr>serviceTypeId := []\<rparr>) = [] \<and>
   serviceTypeId (example_rng\<lparr>serviceTypeId := []\<rparr>) = [] \<and>
   previewAssignments_rng 0 (example_rng\<lparr>serviceTypeId := []\<rparr>) = []"
proof -
  let ?st = "example_sel\<lparr>orgId := ''org-2'', serviceTypes := [], loading := True,
        error := ''x'', submitting := True, serviceTypeId := ''t2'', monthCount := 6,
        members := [\<lparr>id_m = ''B'', name_m = ''Bob''\<rparr>, \<lparr>id_m = ''A'', name_m = ''Ann''\<rparr>,
                    \<lparr>id_m = ''C'', name_m = ''Cy''\<rparr>],
        selectedDates := [''2025-01-12'', ''2025-01-19'', ''2025-01-05'']\<rparr>"
  let ?rt = "example_rng\<lparr>startDate := ''2024-12-31'', showPreview := False\<rparr>"
  let ?rt3 = "example_rng\<lparr>orgId := ''org-2'', showPreview := False,
        members := [\<lparr>id_m = ''B'', name_m = ''Bob''\<rparr>, \<lparr>id_m = ''A'', name_m = ''Ann''\<rparr>]\<rparr>"
  have hs: "(serviceTypeId example_sel = []) = (serviceTypeId ?st = []) \<and>
      dates_sel example_sel = dates_sel ?st \<and>
      selectedMemberIds example_sel = selectedMemberIds ?st \<and>
      (\<forall>m \<in> set (selectedMemberIds example_sel).
         resolveName (members example_sel) m = resolveName (members ?st) m)"
    and hr: "(serviceTypeId example_rng = []) = (serviceTypeId ?rt = []) \<and>
      dates_rng 0 example_rng = dates_rng 28800000 ?rt \<and>
      selectedMemberIds example_rng = selectedMemberIds ?rt \<and>
      (\<forall>m \<in> set (selectedMemberIds example_rng).
         resolveName (members example_rng) m = resolveName (members ?rt) m)"
    and hr3: "(serviceTypeId example_rng = []) = (serviceTypeId ?rt3 = []) \<and>
      startDate example_rng = startDate ?rt3 \<and> endDate example_rng = endDate ?rt3 \<and>
      dayOfWeek example_rng = dayOfWeek ?rt3 \<and>
      selectedMemberIds example_rng = selectedMemberIds ?rt3 \<and>
      (\<forall>m \<in> set (selectedMemberIds example_rng).
         resolveName (members example_rng) m = resolveName (members ?rt3) m)"
    and d1: "members example_sel \<noteq> members ?st"
    and d3: "members example_rng \<noteq> members ?rt3"
    and z1: "serviceTypeId (example_sel\<lparr>serviceTypeId := []\<rparr>) = []"
    and z2: "serviceTypeId (example_rng\<lparr>serviceTypeId := []\<rparr>) = []"
    by code_simp+
  note t = preview_determined_by_inputs [where st = example_sel and st' = ?st and rt = example_rng
      and tza = 0 and tza' = 28800000 and rt' = ?rt]
  note t3 = preview_determined_by_inputs [where st = "example_sel\<lparr>serviceTypeId := []\<rparr>" and rt = example_rng
      and tza = "- 18000000" and rt' = ?rt3]
  note u = preview_determined_by_inputs [where rt = "example_rng\<lparr>serviceTypeId := []\<rparr>" and tza = 0]
  from t [THEN conjunct1] hs have a: "previewAssignments_sel example_sel = previewAssignments_sel ?st"
    by blast
  from t [THEN conjunct2, THEN conjunct1] hr have b: "previewAssignments_rng 0 example_rng = previewAssignments_rng 28800000 ?rt"
    by blast
  from t3 [THEN conjunct2, THEN conjunct2, THEN conjunct1] hr3 have c: "previewAssignments_rng (- 18000000) example_rng =
      previewAssignments_rng (- 18000000) ?rt3"
    by blast
  from t3 [THEN conjunct2, THEN conjunct2, THEN conjunct2, THEN conjunct1] z1 have z3: "previewAssignments_sel (example_sel\<lparr>serviceTypeId := []\<rparr>) = []" by blast
  from u [THEN conjunct2, THEN conjunct2, THEN conjunct2, THEN conjunct2] z2 have z4: "previewAssignments_rng 0 (example_rng\<lparr>serviceTypeId := []\<rparr>) = []" by blast
  from hs hr hr3 d1 d3 a b c z1 z2 z3 z4 show ?thesis by blast
qed

section \<open>The commit workflow\<close>

text \<open>
  C6. Whenever the preview is not empty, \<open>handleSubmit\<close> passes exactly one batch to the
  bulk insert; the batch has one row per preview row, in the same order, and row \<open>i\<close>
  holds the organisation id and service type id of the state, the member id and the date of
  preview row \<open>i\<close>, and the status \<open>scheduled\<close>. This holds whatever the store answers.
\<close>

theorem commit_rows:
  "(previewAssignments_sel st \<noteq> [] \<longrightarrow>
      length (inserted (handleSubmit_sel reply st)) = 1 \<and>
      length (inserted (handleSubmit_sel reply st) ! 0) = length (previewAssignments_sel st) \<and>
      (\<forall>i < length (previewAssignments_sel st).
         inserted (handleSubmit_sel reply st) ! 0 ! i =
           \<lparr>org_id = orgId st, service_type_id = serviceTypeId st,
            member_id = memberId (previewAssignments_sel st ! i),
            service_date = date (previewAssignments_sel st ! i), status = ''scheduled''\<rparr>)) \<and>
   (previewAssignments_rng tza rt \<noteq> [] \<longrightarrow>
      length (inserted (handleSubmit_rng tza reply rt)) = 1 \<and>
      length (inserted (handleSubmit_rng tza reply rt) ! 0) = length (previewAssignments_rng tza rt) \<and>
      (\<forall>i < length (previewAssignments_rng tza rt).
         inserted (handleSubmit_rng tza reply rt) ! 0 ! i =
           \<lparr>org_id = orgId rt, service_type_id = serviceTypeId rt,
            member_id = memberId (previewAssignments_rng tza rt ! i),
            service_date = date (previewAssignments_rng tza rt ! i), status = ''scheduled''\<rparr>))"
  by (simp add: handleSubmit_sel_valid handleSubmit_rng_valid toRows_length toRows_nth)

theorem commit_rows_witness:
  "previewAssignments_sel example_sel \<noteq> [] \<and>
   length (inserted (handleSubmit_sel (\<lambda>rows. Inserted) example_sel)) = 1 \<and>
   length (inserted (handleSubmit_sel (\<lambda>rows. Inserted) example_sel) ! 0) = 3 \<and>
   inserted (handleSubmit_sel (\<lambda>rows. Inserted) example_sel) ! 0 ! 1 =
     \<lparr>org_id = ''org-1'', service_type_id = ''t1'', member_id = ''B'',
      service_date = ''2025-01-12'', status = ''scheduled''\<rparr> \<and>
   previewAssignments_rng 0 example_rng \<noteq> [] \<and>
   length (inserted (handleSubmit_rng 0 (\<lambda>rows. Rejected ''offline'') example_rng)) = 1 \<and>
   length (inserted (handleSubmit_rng 0 (\<lambda>rows. Rejected ''offline'') example_rng) ! 0) = 5 \<and>
   inserted (handleSubmit_rng 0 (\<lambda>rows. Rejected ''offline'') example_rng) ! 0 ! 4 =
     \<lparr>org_id = ''org-1'', service_type_id = ''t1'', member_id = ''A'',
      service_date = ''2025-01-29'', status = ''scheduled''\<rparr>"
proof -
  have hs: "previewAssignments_sel example_sel \<noteq> []"
    and hr: "previewAssignments_rng 0 example_rng \<noteq> []"
    by (simp_all add: example_sel_preview example_rng_preview)
  note t = commit_rows [where st = example_sel and reply = "\<lambda>rows. Inserted" and tza = 0 and rt = example_rng]
  note u = commit_rows [where st = example_sel and reply = "\<lambda>rows. Rejected ''offline''" and tza = 0 and rt = example_rng]
  have e: "orgId example_sel = ''org-1''" "serviceTypeId example_sel = ''t1''"
    "orgId example_rng = ''org-1''" "serviceTypeId example_rng = ''t1''"
    by code_simp+
  from t hs have a: "length (inserted (handleSubmit_sel (\<lambda>rows. Inserted) example_sel)) = 1"
    "length (inserted (handleSubmit_sel (\<lambda>rows. Inserted) example_sel) ! 0) = 3"
    "inserted (handleSubmit_sel (\<lambda>rows. Inserted) example_sel) ! 0 ! 1 =
     \<lparr>org_id = ''org-1'', service_type_id = ''t1'', member_id = ''B'',
      service_date = ''2025-01-12'', status = ''scheduled''\<rparr>"
    by (simp_all add: example_sel_preview e)
  from u hr have b: "length (inserted (handleSubmit_rng 0 (\<lambda>rows. Rejected ''offline'') example_rng)) = 1"
    "length (inserted (handleSubmit_rng 0 (\<lambda>rows. Rejected ''offline'') example_rng) ! 0) = 5"
    "inserted (handleSubmit_rng 0 (\<lambda>rows. Rejected ''offline'') example_rng) ! 0 ! 4 =
     \<lparr>org_id = ''org-1'', service_type_id = ''t1'', member_id = ''A'',
      service_date = ''2025-01-29'', status = ''scheduled''\<rparr>"
    by (simp_all add: example_rng_preview e)
  from hs hr a b show ?thesis by blast
qed

text \<open>
  C7. With no service type chosen, or no member selected, or an empty date set,
  \<open>handleSubmit\<close> sets one of the validation messages (none of them empty), clears the
  submitting flag and returns without calling the bulk insert or leaving the page.
\<close>

theorem invalid_commit_blocked:
  "(serviceTypeId st = [] \<or> selectedMemberIds st = [] \<or> dates_sel st = [] \<longrightarrow>
      inserted (handleSubmit_sel reply st) = [] \<and>
      pushed (handleSubmit_sel reply st) = [] \<and>
      error (state_after (handleSubmit_sel reply st)) \<noteq> [] \<and>
      error (state_after (handleSubmit_sel reply st)) =
        (if serviceTypeId st = [] \<or> selectedMemberIds st = [] then msg_type_and_member
         else msg_one_date) \<and>
      submitting (state_after (handleSubmit_sel reply st)) = False) \<and>
   (serviceTypeId rt = [] \<or> selectedMemberIds rt = [] \<or> dates_rng tza rt = [] \<longrightarrow>
      inserted (handleSubmit_rng tza reply rt) = [] \<and>
      pushed (handleSubmit_rng tza reply rt) = [] \<and>
      error (state_after (handleSubmit_rng tza reply rt)) \<noteq> [] \<and>
      error (state_after (handleSubmit_rng tza reply rt)) =
        (if serviceTypeId rt = [] \<or> selectedMemberIds rt = [] then msg_type_and_member
         else msg_no_records) \<and>
      submitting (state_after (handleSubmit_rng tza reply rt)) = False)"
proof (intro conjI impI)
  assume a: "serviceTypeId st = [] \<or> selectedMemberIds st = [] \<or> dates_sel st = []"
  then have h: "handleSubmit_sel reply st =
      failWith (if serviceTypeId st = [] \<or> selectedMemberIds st = [] then msg_type_and_member
         else msg_one_date) (st\<lparr>error := [], submitting := True\<rparr>)"
    by (auto simp: handleSubmit_sel_def Let_def sortedDates_Nil_iff)
  show "inserted (handleSubmit_sel reply st) = []"
    and "pushed (handleSubmit_sel reply st) = []"
    and "error (state_after (handleSubmit_sel reply st)) =
        (if serviceTypeId st = [] \<or> selectedMemberIds st = [] then msg_type_and_member
         else msg_one_date)"
    and "submitting (state_after (handleSubmit_sel reply st)) = False"
    by (simp_all only: h failWith_fields)
  show "error (state_after (handleSubmit_sel reply st)) \<noteq> []"
    by (simp only: h failWith_fields) (simp add: msgs_nonempty)
next
  assume a: "serviceTypeId rt = [] \<or> selectedMemberIds rt = [] \<or> dates_rng tza rt = []"
  then have h: "handleSubmit_rng tza reply rt =
      failWith (if serviceTypeId rt = [] \<or> selectedMemberIds rt = [] then msg_type_and_member
         else msg_no_records) (rt\<lparr>error := [], submitting := True\<rparr>)"
    by (auto simp: handleSubmit_rng_def previewAssignments_rng_def Let_def)
  show "inserted (handleSubmit_rng tza reply rt) = []"
    and "pushed (handleSubmit_rng tza reply rt) = []"
    and "error (state_after (handleSubmit_rng tza reply rt)) =
        (if serviceTypeId rt = [] \<or> selectedMemberIds rt = [] then msg_type_and_member
         else msg_no_records)"
    and "submitting (state_after (handleSubmit_rng tza reply rt)) = False"
    by (simp_all only: h failWith_fields)
  show "error (state_after (handleSubmit_rng tza reply rt)) \<noteq> []"
    by (simp only: h failWith_fields) (simp add: msgs_nonempty)
qed

theorem invalid_commit_blocked_witness:
  "dates_sel (example_sel\<lparr>selectedDates := []\<rparr>) = [] \<and>
   inserted (handleSubmit_sel (\<lambda>rows. Inserted) (example_sel\<lparr>selectedDates := []\<rparr>)) = [] \<and>
   pushed (handleSubmit_sel (\<lambda>rows. Inserted) (example_sel\<lparr>selectedDates := []\<rparr>)) = [] \<and>
   error (state_after (handleSubmit_sel (\<lambda>rows. Inserted) (example_sel\<lparr>selectedDates := []\<rparr>))) =
     msg_one_date \<and>
   serviceTypeId (example_sel\<lparr>serviceTypeId := []\<rparr>) = [] \<and>
   inserted (handleSubmit_sel (\<lambda>rows. Inserted) (example_sel\<lparr>serviceTypeId := []\<rparr>)) = [] \<and>
   error (state_after (handleSubmit_sel (\<lambda>rows. Inserted) (example_sel\<lparr>serviceTypeId := []\<rparr>))) =
     msg_type_and_member \<and>
   dates_rng 0 (example_rng\<lparr>startDate := ''2025-02-01''\<rparr>) = [] \<and>
   inserted (handleSubmit_rng 0 (\<lambda>rows. Inserted) (example_rng\<lparr>startDate := ''2025-02-01''\<rparr>)) = [] \<and>
   pushed (handleSubmit_rng 0 (\<lambda>rows. Inserted) (example_rng\<lparr>startDate := ''2025-02-01''\<rparr>)) = [] \<and>
   error (state_after (handleSubmit_rng 0 (\<lambda>rows. Inserted) (example_rng\<lparr>startDate := ''2025-02-01''\<rparr>))) =
     msg_no_records \<and>
   selectedMemberIds (example_rng\<lparr>selectedMemberIds := []\<rparr>) = [] \<and>
   inserted (handleSubmit_rng 0 (\<lambda>rows. Inserted) (example_rng\<lparr>selectedMemberIds := []\<rparr>)) = [] \<and>
   error (state_after (handleSubmit_rng 0 (\<lambda>rows. Inserted) (example_rng\<lparr>selectedMemberIds := []\<rparr>))) =
     msg_type_and_member"
proof -
  let ?s1 = "example_sel\<lparr>selectedDates := []\<rparr>"
  let ?s2 = "example_sel\<lparr>serviceTypeId := []\<rparr>"
  let ?r1 = "example_rng\<lparr>startDate := ''2025-02-01''\<rparr>"
  let ?r2 = "example_rng\<lparr>selectedMemberIds := []\<rparr>"
  have h1: "dates_sel ?s1 = []" and h2: "serviceTypeId ?s2 = []"
    and h3: "dates_rng 0 ?r1 = []" and h4: "selectedMemberIds ?r2 = []"
    by code_simp+
  have n1: "\<not> (serviceTypeId ?s1 = [] \<or> selectedMemberIds ?s1 = [])"
    and n3: "\<not> (serviceTypeId ?r1 = [] \<or> selectedMemberIds ?r1 = [])"
    by code_simp+
  note t1 = invalid_commit_blocked [where st = ?s1 and tza = 0 and rt = ?r1 and reply = "\<lambda>rows. Inserted"]
  note t2 = invalid_commit_blocked [where st = ?s2 and tza = 0 and rt = ?r2 and reply = "\<lambda>rows. Inserted"]
  from t1 h1 n1 have a: "inserted (handleSubmit_sel (\<lambda>rows. Inserted) ?s1) = []"
    "pushed (handleSubmit_sel (\<lambda>rows. Inserted) ?s1) = []"
    "error (state_after (handleSubmit_sel (\<lambda>rows. Inserted) ?s1)) = msg_one_date"
    by simp_all
  from t2 h2 have b: "inserted (handleSubmit_sel (\<lambda>rows. Inserted) ?s2) = []"
    "error (state_after (handleSubmit_sel (\<lambda>rows. Inserted) ?s2)) = msg_type_and_member"
    by simp_all
  from t1 h3 n3 have c: "inserted (handleSubmit_rng 0 (\<lambda>rows. Inserted) ?r1) = []"
    "pushed (handleSubmit_rng 0 (\<lambda>rows. Inserted) ?r1) = []"
    "error (state_after (handleSubmit_rng 0 (\<lambda>rows. Inserted) ?r1)) = msg_no_records"
    by simp_all
  from t2 h4 have d: "inserted (handleSubmit_rng 0 (\<lambda>rows. Inserted) ?r2) = []"
    "error (state_after (handleSubmit_rng 0 (\<lambda>rows. Inserted) ?r2)) = msg_type_and_member"
    by simp_all
  from h1 h2 h3 h4 a b c d show ?thesis by blast
qed

text \<open>
  C10. The batches passed to the bulk insert do not depend on the member list: two runs
  from states that differ only in \<open>members\<close> submit the same batches, whatever the store
  answers in each. The names, placeholder included, reach only the preview.
\<close>

theorem commit_ignores_names:
  "inserted (handleSubmit_sel reply (st\<lparr>members := ms\<rparr>)) =
     inserted (handleSubmit_sel reply' (st\<lparr>members := ms'\<rparr>)) \<and>
   inserted (handleSubmit_rng tza reply (rt\<lparr>members := ms\<rparr>)) =
     inserted (handleSubmit_rng tza reply' (rt\<lparr>members := ms'\<rparr>))"
proof
  show "inserted (handleSubmit_sel reply (st\<lparr>members := ms\<rparr>)) =
     inserted (handleSubmit_sel reply' (st\<lparr>members := ms'\<rparr>))"
    using preview_sel_rows_members [where org = "orgId st" and sid = "serviceTypeId st"
        and st = st and ms = ms and ms' = ms']
    by (simp add: handleSubmit_sel_def Let_def inserted_submitRows inserted_failWith)
  show "inserted (handleSubmit_rng tza reply (rt\<lparr>members := ms\<rparr>)) =
     inserted (handleSubmit_rng tza reply' (rt\<lparr>members := ms'\<rparr>))"
    using preview_rng_rows_members [where org = "orgId rt" and sid = "serviceTypeId rt"
        and tza = tza and rt = rt and ms = ms and ms' = ms']
      preview_rng_length_members [where tza = tza and rt = rt and ms = ms and ms' = ms']
    by (simp add: handleSubmit_rng_def Let_def inserted_submitRows inserted_failWith)
qed

theorem commit_ignores_names_witness:
  "inserted (handleSubmit_sel (\<lambda>rows. Inserted) (example_sel\<lparr>members := []\<rparr>)) =
     inserted (handleSubmit_sel (\<lambda>rows. Inserted)
       (example_sel\<lparr>members := [\<lparr>id_m = ''A'', name_m = ''Zed''\<rparr>]\<rparr>)) \<and>
   map memberName (previewAssignments_sel (example_sel\<lparr>members := []\<rparr>)) =
     [unknown_name, unknown_name, unknown_name] \<and>
   map memberName (previewAssignments_sel (example_sel\<lparr>members := [\<lparr>id_m = ''A'', name_m = ''Zed''\<rparr>]\<rparr>)) =
     [''Zed'', unknown_name, ''Zed''] \<and>
   inserted (handleSubmit_rng 0 (\<lambda>rows. Inserted) (example_rng\<lparr>members := []\<rparr>)) =
     inserted (handleSubmit_rng 0 (\<lambda>rows. Inserted)
       (example_rng\<lparr>members := [\<lparr>id_m = ''A'', name_m = ''Zed''\<rparr>]\<rparr>))"
proof -
  note t = commit_ignores_names [where reply = "\<lambda>rows. Inserted" and st = example_sel
      and ms = "[]" and reply' = "\<lambda>rows. Inserted"
      and ms' = "[\<lparr>id_m = ''A'', name_m = ''Zed''\<rparr>]" and tza = 0 and rt = example_rng]
  have a: "map memberName (previewAssignments_sel (example_sel\<lparr>members := []\<rparr>)) =
     [unknown_name, unknown_name, unknown_name]"
    and b: "map memberName (previewAssignments_sel (example_sel\<lparr>members := [\<lparr>id_m = ''A'', name_m = ''Zed''\<rparr>]\<rparr>)) =
     [''Zed'', unknown_name, ''Zed'']"
    by code_simp+
  from t a b show ?thesis by blast
qed

section \<open>Date sets\<close>

text \<open>
  C8. After any sequence of clicks on the calendar, the date set built from the selection
  (\<open>Array.from(selectedDates).sort()\<close>) is ascending and free of duplicates, and holds
  exactly the dates that are toggled on, those clicked an odd number of times. It does not
  depend on the order of the clicks. Toggling \<open>2025-03-05\<close> and then \<open>2025-03-02\<close> gives
  \<open>2025-03-02, 2025-03-05\<close>.
\<close>

theorem selection_sorted:
  "sorted (sortedDates (fold toggleDate cs [])) \<and>
   distinct (sortedDates (fold toggleDate cs [])) \<and>
   set (sortedDates (fold toggleDate cs [])) = {d. odd (count_list cs d)} \<and>
   (mset cs' = mset cs \<longrightarrow>
      sortedDates (fold toggleDate cs' []) = sortedDates (fold toggleDate cs [])) \<and>
   sortedDates (fold toggleDate [''2025-03-05'', ''2025-03-02''] []) =
     [''2025-03-02'', ''2025-03-05'']"
proof (intro conjI impI)
  show "sorted (sortedDates (fold toggleDate cs []))"
    by (rule sortedDates_sorted)
  show "distinct (sortedDates (fold toggleDate cs []))"
    by (simp add: sortedDates_distinct fold_toggleDate_distinct)
  show "set (sortedDates (fold toggleDate cs [])) = {d. odd (count_list cs d)}"
    by (simp add: sortedDates_set toggled_set)
  show "sortedDates (fold toggleDate [''2025-03-05'', ''2025-03-02''] []) =
     [''2025-03-02'', ''2025-03-05'']"
    by code_simp
next
  assume m: "mset cs' = mset cs"
  have "\<And>d. count_list cs' d = count_list cs d"
  proof -
    fix d
    have "count (mset cs') d = count (mset cs) d" using m by simp
    then show "count_list cs' d = count_list cs d" by (simp only: count_mset)
  qed
  then have "set (fold toggleDate cs' []) = set (fold toggleDate cs [])"
    by (simp add: toggled_set)
  then show "sortedDates (fold toggleDate cs' []) = sortedDates (fold toggleDate cs [])"
    by (intro sortedDates_unique) (simp_all add: fold_toggleDate_distinct)
qed

theorem selection_sorted_witness:
  "mset [''2025-03-02'', ''2025-03-09'', ''2025-03-05'', ''2025-03-09''] =
     mset [''2025-03-09'', ''2025-03-05'', ''2025-03-09'', ''2025-03-02''] \<and>
   sortedDates (fold toggleDate [''2025-03-02'', ''2025-03-09'', ''2025-03-05'', ''2025-03-09''] []) =
     sortedDates (fold toggleDate [''2025-03-09'', ''2025-03-05'', ''2025-03-09'', ''2025-03-02''] []) \<and>
   sortedDates (fold toggleDate [''2025-03-09'', ''2025-03-05'', ''2025-03-09'', ''2025-03-02''] []) =
     [''2025-03-02'', ''2025-03-05'']"
proof -
  have h: "mset [''2025-03-02'', ''2025-03-09'', ''2025-03-05'', ''2025-03-09''] =
     mset [''2025-03-09'', ''2025-03-05'', ''2025-03-09'', ''2025-03-02'']"
    by (simp add: add.commute add.left_commute)
  have e: "sortedDates (fold toggleDate [''2025-03-09'', ''2025-03-05'', ''2025-03-09'', ''2025-03-02''] []) =
     [''2025-03-02'', ''2025-03-05'']"
    by code_simp
  from selection_sorted [where cs = "[''2025-03-09'', ''2025-03-05'', ''2025-03-09'', ''2025-03-02'']"
      and cs' = "[''2025-03-02'', ''2025-03-09'', ''2025-03-05'', ''2025-03-09'']"] h e
  show ?thesis by blast
qed

text \<open>
  C3. At UTC and east of it \<open>generateDates\<close> keeps the days of the range that fall on
  the weekday asked for, and a range whose end precedes its start gives no date in any
  zone. West of UTC the claim fails: five hours west, for the range 2025-01-01 to
  2025-01-31 and weekday 3, \<open>generateDates\<close> returns the five Thursdays instead of the
  five Wednesdays. The range is read and the dates are printed in UTC, but \<open>getDay\<close> takes
  the weekday in local time, where midnight UTC still belongs to the day before.
\<close>

theorem generateDates_west:
  "generateDates (- 18000000) ''2025-01-01'' ''2025-01-31'' 3 =
     [''2025-01-02'', ''2025-01-09'', ''2025-01-16'', ''2025-01-23'', ''2025-01-30'']"
  by code_simp

end
